theory Spec2Isabelle
  imports Main "HOL-Library.Word"
begin

section \<open>Values crossing the adapter boundary\<close>

text \<open>
  A Node \<open>Buffer\<close> is a sequence of bytes; a JavaScript \<open>bigint\<close> is an unbounded
  integer. \<open>Address\<close> (ethereumjs-util) wraps a buffer in its field \<open>buf\<close>.
\<close>

type_synonym byte = "8 word"
type_synonym Buffer = "byte list"

datatype Address = Address (buf: Buffer)

text \<open>
  \<open>buffer.toString("hex")\<close>: two lower-case hexadecimal digits per byte.
  \<open>address.toString()\<close> is that text behind the prefix \<open>0x\<close>.
\<close>

definition hex_digit :: "nat \<Rightarrow> char" where
  "hex_digit n = ''0123456789abcdef'' ! n"

definition byte_hex :: "byte \<Rightarrow> string" where
  "byte_hex b = [hex_digit (unat b div 16), hex_digit (unat b mod 16)]"

definition toString_hex :: "Buffer \<Rightarrow> string" where
  "toString_hex b = concat (map byte_hex b)"

definition Address_toString :: "Address \<Rightarrow> string" where
  "Address_toString a = ''0x'' @ toString_hex (buf a)"

text \<open>
  \<open>bufferToBigInt\<close> (ethereumjs-util) reads a buffer as a big-endian unsigned number;
  the empty buffer is 0.
\<close>

definition bufferToBigInt :: "Buffer \<Rightarrow> int" where
  "bufferToBigInt b = foldl (\<lambda>acc x. acc * 256 + uint x) 0 b"

text \<open>
  The transaction result of ethereumjs-vm (\<open>RunTxResult\<close>), restricted to the fields the
  adapter reads, and the account record of ethereumjs-util. A field declared with \<open>?\<close>
  is an \<open>option\<close>; \<open>None\<close> is \<open>undefined\<close>.
\<close>

record EvmError =
  error :: string
  errorType :: string

record ExecResult =
  exceptionError :: "EvmError option"
  returnValue :: Buffer

record RunTxResult =
  totalGasSpent :: int
  gasRefund :: int
  createdAddress :: "Address option"
  execResult :: ExecResult

record Account =
  nonce :: int
  balance :: int
  storageRoot :: Buffer
  codeHash :: Buffer

record BlockHeader =
  number :: int
  coinbase :: Address
  timestamp :: int
  baseFeePerGas :: "int option"
  gasLimit :: int
  difficulty :: int
  mixHash :: Buffer

record Block =
  header :: BlockHeader

section \<open>Effects: the console, exceptions, sequencing\<close>

text \<open>
  Every call of the adapter runs in a world that it may change. The part of the world
  this development looks into is the console; the rest of the record (the backends'
  own state) is the extension of \<open>world\<close>.

  What is written to the console is kept as the arguments of the call. A template
  literal is kept as the list of its text chunks and substituted values, in order; the
  printed text is the concatenation of their string conversions. A bigint prints in
  decimal. A buffer substituted as it is (\<open>JBuffer\<close>) prints through its default string
  conversion, which decodes the bytes as UTF-8: the template holds both buffers, but two
  different buffers can print alike.
\<close>

datatype jsval =
    JString string
  | JBigInt int
  | JBuffer Buffer
  | JUndefined
  | JTemplate "jsval list"

datatype console_event =
    ConsoleLog "jsval list"
  | ConsoleTrace "jsval list"

record world =
  console :: "console_event list"

text \<open>A thrown JavaScript \<open>Error\<close> with its message.\<close>

datatype js_error = Error string

text \<open>
  An operation takes the world and gives back either the exception it threw or its
  value, with the world as it left it. An \<open>await\<close>ed call followed by more code is
  \<open>bind_action\<close>: an exception of the first part skips the rest.
\<close>

type_synonym ('a, 'w) action = "'w \<Rightarrow> (js_error + 'a) \<times> 'w"

definition return_action :: "'a \<Rightarrow> ('a, 'w) action" where
  "return_action x w = (Inr x, w)"

definition throw :: "js_error \<Rightarrow> ('a, 'w) action" where
  "throw e w = (Inl e, w)"

definition bind_action :: "('a, 'w) action \<Rightarrow> ('a \<Rightarrow> ('b, 'w) action) \<Rightarrow> ('b, 'w) action" where
  "bind_action m f w = (case m w of (Inl e, w') \<Rightarrow> (Inl e, w') | (Inr x, w') \<Rightarrow> f x w')"

definition console_log :: "jsval list \<Rightarrow> (unit, 'z world_scheme) action" where
  "console_log args w = (Inr (), w\<lparr>console := console w @ [ConsoleLog args]\<rparr>)"

definition console_trace :: "jsval list \<Rightarrow> (unit, 'z world_scheme) action" where
  "console_trace args w = (Inr (), w\<lparr>console := console w @ [ConsoleTrace args]\<rparr>)"

text \<open>An optional string substituted into a template: the string, or \<open>undefined\<close>.\<close>

definition optional_string :: "string option \<Rightarrow> jsval" where
  "optional_string x = (case x of None \<Rightarrow> JUndefined | Some s \<Rightarrow> JString s)"

section \<open>Result Comparator (dual.ts)\<close>

text \<open>
  \<open>assertEqualRunTxResults\<close>: a chain of checks, each tracing both values to the
  console and throwing at the first difference. \<open>x?.f\<close> is \<open>map_option f x\<close>.
\<close>

definition assertEqualRunTxResults ::
  "RunTxResult \<Rightarrow> RunTxResult \<Rightarrow> (unit, 'z world_scheme) action" where
  "assertEqualRunTxResults ethereumJSResult rethnetResult =
    (if totalGasSpent ethereumJSResult \<noteq> totalGasSpent rethnetResult then
       bind_action
         (console_trace [JTemplate [JString ''Different totalGasSpent: '',
            JBigInt (totalGasSpent ethereumJSResult), JString '' !== '',
            JBigInt (totalGasSpent rethnetResult)]])
         (\<lambda>_. throw (Error ''Different totalGasSpent''))
     else if gasRefund ethereumJSResult \<noteq> gasRefund rethnetResult then
       bind_action
         (console_trace [JTemplate [JString ''Different gasRefund: '',
            JBigInt (gasRefund ethereumJSResult), JString '' !== '',
            JBigInt (gasRefund rethnetResult)]])
         (\<lambda>_. throw (Error ''Different gasRefund''))
     else if map_option Address_toString (createdAddress ethereumJSResult)
           \<noteq> map_option Address_toString (createdAddress rethnetResult) then
       bind_action
         (console_trace [JTemplate [JString ''Different createdAddress: '',
            optional_string (map_option Address_toString (createdAddress ethereumJSResult)),
            JString '' !== '',
            optional_string (map_option Address_toString (createdAddress rethnetResult))]])
         (\<lambda>_. throw (Error ''Different createdAddress''))
     else if map_option error (exceptionError (execResult ethereumJSResult))
           \<noteq> map_option error (exceptionError (execResult rethnetResult)) then
       bind_action
         (console_trace [JTemplate [JString ''Different exceptionError.error: '',
            optional_string (map_option error (exceptionError (execResult ethereumJSResult))),
            JString '' !== '',
            optional_string (map_option error (exceptionError (execResult rethnetResult)))]])
         (\<lambda>_. throw (Error ''Different exceptionError.error''))
     else if map_option errorType (exceptionError (execResult ethereumJSResult))
           \<noteq> map_option errorType (exceptionError (execResult rethnetResult)) then
       bind_action
         (console_trace [JTemplate [JString ''Different exceptionError.errorType: '',
            optional_string (map_option errorType (exceptionError (execResult ethereumJSResult))),
            JString '' !== '',
            optional_string (map_option errorType (exceptionError (execResult rethnetResult)))]])
         (\<lambda>_. throw (Error ''Different exceptionError.errorType''))
     else if createdAddress ethereumJSResult = None then
       (if toString_hex (returnValue (execResult ethereumJSResult))
            \<noteq> toString_hex (returnValue (execResult rethnetResult)) then
          bind_action
            (console_trace [JTemplate [JString ''Different returnValue: '',
               JString (toString_hex (returnValue (execResult ethereumJSResult))),
               JString '' !== '',
               JString (toString_hex (returnValue (execResult rethnetResult)))]])
            (\<lambda>_. throw (Error ''Different returnValue''))
        else return_action ())
     else return_action ())"

text \<open>
  \<open>assertEqualAccounts\<close>: balance, then codeHash (\<open>Buffer.equals\<close>: the same bytes),
  then nonce. The check of storageRoot is commented out in the source.
\<close>

definition assertEqualAccounts ::
  "Account \<Rightarrow> Account \<Rightarrow> (unit, 'z world_scheme) action" where
  "assertEqualAccounts ethereumJSAccount rethnetAccount =
    (if balance ethereumJSAccount \<noteq> balance rethnetAccount then
       bind_action
         (console_trace [JTemplate [JString ''Different balance: '',
            JBigInt (balance ethereumJSAccount), JString '' !== '',
            JBigInt (balance rethnetAccount)]])
         (\<lambda>_. throw (Error ''Different balance''))
     else if \<not> (codeHash ethereumJSAccount = codeHash rethnetAccount) then
       bind_action
         (console_trace [JTemplate [JString ''Different codeHash: '',
            JBuffer (codeHash ethereumJSAccount), JString '' !== '',
            JBuffer (codeHash rethnetAccount)]])
         (\<lambda>_. throw (Error ''Different codeHash''))
     else if nonce ethereumJSAccount \<noteq> nonce rethnetAccount then
       bind_action
         (console_trace [JTemplate [JString ''Different nonce: '',
            JBigInt (nonce ethereumJSAccount), JString '' !== '',
            JBigInt (nonce rethnetAccount)]])
         (\<lambda>_. throw (Error ''Different nonce''))
     else return_action ())"

section \<open>Adapter Contract (the interface \<open>VMAdapter\<close>)\<close>

text \<open>
  The interface both backends implement, as a record of operations on the world.
  \<open>'tx\<close> is the transaction type and \<open>'t\<close> the trace type (\<open>Trace\<close>); the adapter
  never looks into either. The tracing configuration, its output and the tracing
  callbacks are passed through untouched.
\<close>

typedecl RpcDebugTracingConfig
typedecl RpcDebugTraceOutput
typedecl TracingCallbacks

record ('w, 'tx, 't) VMAdapter =
  dryRun :: "'tx \<Rightarrow> Block \<Rightarrow> bool option \<Rightarrow> (RunTxResult \<times> 't, 'w) action"
  getStateRoot :: "(Buffer, 'w) action"
  getAccount :: "Address \<Rightarrow> (Account, 'w) action"
  getContractStorage :: "Address \<Rightarrow> Buffer \<Rightarrow> (Buffer, 'w) action"
  getContractCode :: "Address \<Rightarrow> (Buffer, 'w) action"
  putAccount :: "Address \<Rightarrow> Account \<Rightarrow> (unit, 'w) action"
  putContractCode :: "Address \<Rightarrow> Buffer \<Rightarrow> (unit, 'w) action"
  putContractStorage :: "Address \<Rightarrow> Buffer \<Rightarrow> Buffer \<Rightarrow> (unit, 'w) action"
  restoreContext :: "Buffer \<Rightarrow> (unit, 'w) action"
  traceTransaction ::
    "Buffer \<Rightarrow> Block \<Rightarrow> RpcDebugTracingConfig \<Rightarrow> (RpcDebugTraceOutput, 'w) action"
  enableTracing :: "TracingCallbacks \<Rightarrow> (unit, 'w) action"
  disableTracing :: "(unit, 'w) action"
  setBlockContext :: "Block \<Rightarrow> Buffer option \<Rightarrow> (unit, 'w) action"
  startBlock :: "(unit, 'w) action"
  runTxInBlock :: "'tx \<Rightarrow> Block \<Rightarrow> (RunTxResult \<times> 't, 'w) action"
  addBlockRewards :: "(Address \<times> int) list \<Rightarrow> (unit, 'w) action"
  sealBlock :: "(unit, 'w) action"
  revertBlock :: "(unit, 'w) action"

section \<open>Diagnostic Reporter (dual.ts)\<close>

text \<open>
  \<open>JSON.stringify\<close> on a trace, without and with the replacer that turns a bigint into
  its decimal text. It is a parameter because the trace type is: it throws on a value it
  cannot serialise (a bigint without the replacer, a cycle).
\<close>

record 't JSON =
  stringify :: "'t \<Rightarrow> js_error + string"
  stringify_bigint_replacer :: "'t \<Rightarrow> js_error + string"

definition printEthereumJSTrace :: "'t JSON \<Rightarrow> 't \<Rightarrow> (unit, 'z world_scheme) action" where
  "printEthereumJSTrace json trace =
     (case stringify json trace of
        Inl e \<Rightarrow> throw e
      | Inr text \<Rightarrow> console_log [JString text])"

definition printRethnetTrace :: "'t JSON \<Rightarrow> 't \<Rightarrow> (unit, 'z world_scheme) action" where
  "printRethnetTrace json trace =
     (case stringify_bigint_replacer json trace of
        Inl e \<Rightarrow> throw e
      | Inr text \<Rightarrow> console_log [JString text])"

section \<open>Dual Adapter (class \<open>DualModeAdapter\<close>, dual.ts)\<close>

text \<open>
  The object holds the reference adapter (\<open>_ethereumJSAdapter\<close>) and the candidate adapter
  (\<open>_rethnetAdapter\<close>), both behind the interface. Its methods follow in the order of the
  source; the static factory \<open>create\<close>, which builds the two adapters from the node
  configuration, is not part of this development.
\<close>

record ('w, 'tx, 't) DualModeAdapter =
  ethereumJSAdapter :: "('w, 'tx, 't) VMAdapter"
  rethnetAdapter :: "('w, 'tx, 't) VMAdapter"

text \<open>The \<open>catch\<close> block shared by \<open>dryRun\<close> and \<open>runTxInBlock\<close>: print both traces, rethrow.\<close>

definition print_traces_and_rethrow ::
  "'t JSON \<Rightarrow> 't \<Rightarrow> 't \<Rightarrow> js_error \<Rightarrow> ('a, 'z world_scheme) action" where
  "print_traces_and_rethrow json ethereumJSTrace rethnetTrace e =
     bind_action (console_log [JString ''EthereumJS trace'']) (\<lambda>_.
     bind_action (printEthereumJSTrace json ethereumJSTrace) (\<lambda>_.
     bind_action (console_log []) (\<lambda>_.
     bind_action (console_log [JString ''Rethnet trace'']) (\<lambda>_.
     bind_action (printRethnetTrace json rethnetTrace) (\<lambda>_.
     throw e)))))"

definition DualModeAdapter_dryRun ::
  "'t JSON \<Rightarrow> ('z world_scheme, 'tx, 't) DualModeAdapter \<Rightarrow> 'tx \<Rightarrow> Block \<Rightarrow> bool option
     \<Rightarrow> (RunTxResult \<times> 't, 'z world_scheme) action" where
  "DualModeAdapter_dryRun json this tx blockContext forceBaseFeeZero =
     bind_action (dryRun (ethereumJSAdapter this) tx blockContext forceBaseFeeZero)
       (\<lambda>(ethereumJSResult, ethereumJSTrace).
     bind_action (dryRun (rethnetAdapter this) tx blockContext forceBaseFeeZero)
       (\<lambda>(rethnetResult, rethnetTrace) w.
          case assertEqualRunTxResults ethereumJSResult rethnetResult w of
            (Inr _, w') \<Rightarrow> (Inr (rethnetResult, rethnetTrace), w')
          | (Inl e, w') \<Rightarrow> print_traces_and_rethrow json ethereumJSTrace rethnetTrace e w'))"

definition DualModeAdapter_getStateRoot ::
  "('z world_scheme, 'tx, 't) DualModeAdapter \<Rightarrow> (Buffer, 'z world_scheme) action" where
  "DualModeAdapter_getStateRoot this =
     bind_action (getStateRoot (ethereumJSAdapter this)) (\<lambda>ethereumJSRoot.
     bind_action (getStateRoot (rethnetAdapter this)) (\<lambda>rethnetRoot.
       if \<not> (ethereumJSRoot = rethnetRoot) then
         bind_action
           (console_trace [JTemplate [JString ''Different state root: '',
              JString (toString_hex ethereumJSRoot), JString '' !== '',
              JString (toString_hex rethnetRoot)]])
           (\<lambda>_. throw (Error ''Different state root''))
       else return_action rethnetRoot))"

definition DualModeAdapter_getAccount ::
  "('z world_scheme, 'tx, 't) DualModeAdapter \<Rightarrow> Address \<Rightarrow> (Account, 'z world_scheme) action" where
  "DualModeAdapter_getAccount this address =
     bind_action (getAccount (ethereumJSAdapter this) address) (\<lambda>ethereumJSAccount.
     bind_action (getAccount (rethnetAdapter this) address) (\<lambda>rethnetAccount.
     bind_action (assertEqualAccounts ethereumJSAccount rethnetAccount) (\<lambda>_.
     return_action ethereumJSAccount)))"

definition DualModeAdapter_getContractStorage ::
  "('z world_scheme, 'tx, 't) DualModeAdapter \<Rightarrow> Address \<Rightarrow> Buffer
     \<Rightarrow> (Buffer, 'z world_scheme) action" where
  "DualModeAdapter_getContractStorage this address key =
     bind_action (getContractStorage (ethereumJSAdapter this) address key)
       (\<lambda>ethereumJSStorageSlot.
     bind_action (getContractStorage (rethnetAdapter this) address key)
       (\<lambda>rethnetStorageSlot.
       if \<not> (ethereumJSStorageSlot = rethnetStorageSlot) then
         bind_action
           (console_trace [JTemplate [JString ''Different storage slot: '',
              JBuffer ethereumJSStorageSlot, JString '' !== '',
              JBuffer rethnetStorageSlot]])
           (\<lambda>_. throw (Error ''Different storage slot''))
       else return_action rethnetStorageSlot))"

definition DualModeAdapter_getContractCode ::
  "('z world_scheme, 'tx, 't) DualModeAdapter \<Rightarrow> Address \<Rightarrow> (Buffer, 'z world_scheme) action" where
  "DualModeAdapter_getContractCode this address =
     bind_action (getContractCode (ethereumJSAdapter this) address) (\<lambda>ethereumJSCode.
     bind_action (getContractCode (rethnetAdapter this) address) (\<lambda>rethnetCode.
       if \<not> (ethereumJSCode = rethnetCode) then
         bind_action
           (console_trace [JTemplate [JString ''Different contract code: '',
              JBuffer ethereumJSCode, JString '' !== '', JBuffer rethnetCode]])
           (\<lambda>_. throw (Error ''Different contract code''))
       else return_action rethnetCode))"

definition DualModeAdapter_putAccount ::
  "('w, 'tx, 't) DualModeAdapter \<Rightarrow> Address \<Rightarrow> Account \<Rightarrow> (unit, 'w) action" where
  "DualModeAdapter_putAccount this address account =
     bind_action (putAccount (rethnetAdapter this) address account) (\<lambda>_.
     putAccount (ethereumJSAdapter this) address account)"

definition DualModeAdapter_putContractCode ::
  "('w, 'tx, 't) DualModeAdapter \<Rightarrow> Address \<Rightarrow> Buffer \<Rightarrow> (unit, 'w) action" where
  "DualModeAdapter_putContractCode this address val =
     putContractCode (ethereumJSAdapter this) address val"

definition DualModeAdapter_putContractStorage ::
  "('w, 'tx, 't) DualModeAdapter \<Rightarrow> Address \<Rightarrow> Buffer \<Rightarrow> Buffer \<Rightarrow> (unit, 'w) action" where
  "DualModeAdapter_putContractStorage this address key val =
     bind_action (putContractStorage (rethnetAdapter this) address key val) (\<lambda>_.
     putContractStorage (ethereumJSAdapter this) address key val)"

definition DualModeAdapter_restoreContext ::
  "('w, 'tx, 't) DualModeAdapter \<Rightarrow> Buffer \<Rightarrow> (unit, 'w) action" where
  "DualModeAdapter_restoreContext this stateRoot =
     bind_action (restoreContext (ethereumJSAdapter this) stateRoot) (\<lambda>_.
     restoreContext (rethnetAdapter this) stateRoot)"

definition DualModeAdapter_traceTransaction ::
  "('w, 'tx, 't) DualModeAdapter \<Rightarrow> Buffer \<Rightarrow> Block \<Rightarrow> RpcDebugTracingConfig
     \<Rightarrow> (RpcDebugTraceOutput, 'w) action" where
  "DualModeAdapter_traceTransaction this hash block config =
     traceTransaction (ethereumJSAdapter this) hash block config"

definition DualModeAdapter_enableTracing ::
  "('w, 'tx, 't) DualModeAdapter \<Rightarrow> TracingCallbacks \<Rightarrow> (unit, 'w) action" where
  "DualModeAdapter_enableTracing this callbacks =
     enableTracing (ethereumJSAdapter this) callbacks"

definition DualModeAdapter_disableTracing ::
  "('w, 'tx, 't) DualModeAdapter \<Rightarrow> (unit, 'w) action" where
  "DualModeAdapter_disableTracing this = disableTracing (ethereumJSAdapter this)"

definition DualModeAdapter_setBlockContext ::
  "('w, 'tx, 't) DualModeAdapter \<Rightarrow> Block \<Rightarrow> Buffer option \<Rightarrow> (unit, 'w) action" where
  "DualModeAdapter_setBlockContext this block irregularStateOrUndefined =
     setBlockContext (ethereumJSAdapter this) block irregularStateOrUndefined"

definition DualModeAdapter_startBlock ::
  "('w, 'tx, 't) DualModeAdapter \<Rightarrow> (unit, 'w) action" where
  "DualModeAdapter_startBlock this =
     bind_action (startBlock (rethnetAdapter this)) (\<lambda>_.
     startBlock (ethereumJSAdapter this))"

definition DualModeAdapter_runTxInBlock ::
  "'t JSON \<Rightarrow> ('z world_scheme, 'tx, 't) DualModeAdapter \<Rightarrow> 'tx \<Rightarrow> Block
     \<Rightarrow> (RunTxResult \<times> 't, 'z world_scheme) action" where
  "DualModeAdapter_runTxInBlock json this tx block =
     bind_action (runTxInBlock (ethereumJSAdapter this) tx block)
       (\<lambda>(ethereumJSResult, ethereumJSTrace).
     bind_action (runTxInBlock (rethnetAdapter this) tx block)
       (\<lambda>(rethnetResult, rethnetTrace) w.
          case assertEqualRunTxResults ethereumJSResult rethnetResult w of
            (Inr _, w') \<Rightarrow> (Inr (ethereumJSResult, ethereumJSTrace), w')
          | (Inl e, w') \<Rightarrow> print_traces_and_rethrow json ethereumJSTrace rethnetTrace e w'))"

definition DualModeAdapter_addBlockRewards ::
  "('w, 'tx, 't) DualModeAdapter \<Rightarrow> (Address \<times> int) list \<Rightarrow> (unit, 'w) action" where
  "DualModeAdapter_addBlockRewards this rewards =
     bind_action (addBlockRewards (rethnetAdapter this) rewards) (\<lambda>_.
     addBlockRewards (ethereumJSAdapter this) rewards)"

definition DualModeAdapter_sealBlock ::
  "('w, 'tx, 't) DualModeAdapter \<Rightarrow> (unit, 'w) action" where
  "DualModeAdapter_sealBlock this =
     bind_action (sealBlock (rethnetAdapter this)) (\<lambda>_.
     sealBlock (ethereumJSAdapter this))"

definition DualModeAdapter_revertBlock ::
  "('w, 'tx, 't) DualModeAdapter \<Rightarrow> (unit, 'w) action" where
  "DualModeAdapter_revertBlock this =
     bind_action (revertBlock (rethnetAdapter this)) (\<lambda>_.
     revertBlock (ethereumJSAdapter this))"

section \<open>Candidate backend (class \<open>RethnetAdapter\<close>)\<close>

text \<open>
  The candidate adapter is written against the rethnet-evm library and a few helper
  modules. They are parameters here: the state manager, the engine, the block builder,
  the converters and the hardfork ordering. The library's own types stay type variables:
  \<open>'rtx\<close> its transaction, \<open>'res\<close> its execution result, \<open>'hd\<close> its header data,
  \<open>'bb\<close> a block builder, \<open>'inner\<close> the state handle that \<open>asInner()\<close> returns.
\<close>

record ('w, 'inner) RethnetStateManager =
  state_getAccount :: "Address \<Rightarrow> (Account, 'w) action"
  state_getContractStorage :: "Address \<Rightarrow> Buffer \<Rightarrow> (Buffer, 'w) action"
  state_getContractCode :: "Address \<Rightarrow> (Buffer, 'w) action"
  state_putAccount :: "Address \<Rightarrow> Account \<Rightarrow> (unit, 'w) action"
  state_putContractCode :: "Address \<Rightarrow> Buffer \<Rightarrow> (unit, 'w) action"
  state_putContractStorage :: "Address \<Rightarrow> Buffer \<Rightarrow> Buffer \<Rightarrow> (unit, 'w) action"
  state_getStateRoot :: "(Buffer, 'w) action"
  state_setStateRoot :: "Buffer \<Rightarrow> (unit, 'w) action"
  state_checkpoint :: "(unit, 'w) action"
  state_revert :: "(unit, 'w) action"
  state_asInner :: "'inner"

text \<open>The block environment object that \<open>dryRun\<close> builds for the engine.\<close>

record BlockConfig =
  cfg_number :: int
  cfg_coinbase :: Buffer
  cfg_timestamp :: int
  cfg_basefee :: "int option"
  cfg_gasLimit :: int
  cfg_difficulty :: "int option"

record 'res TransactionResult =
  rethnet_execResult :: "'res"

record ('w, 'rtx, 'res, 'hd) Rethnet =
  guaranteedDryRun :: "'rtx \<Rightarrow> BlockConfig \<Rightarrow> ('res TransactionResult, 'w) action"
  run :: "'rtx \<Rightarrow> 'hd \<Rightarrow> ('res, 'w) action"

text \<open>The header object handed to \<open>BlockBuilder.new\<close>, and the object literal \<open>{}\<close>.\<close>

record BuilderHeader =
  hdr_parentHash :: Buffer
  hdr_ommersHash :: Buffer
  hdr_beneficiary :: Buffer
  hdr_stateRoot :: Buffer
  hdr_transactionsRoot :: Buffer
  hdr_receiptsRoot :: Buffer
  hdr_logsBloom :: Buffer
  hdr_difficulty :: int
  hdr_number :: int
  hdr_gasLimit :: int
  hdr_gasUsed :: int
  hdr_timestamp :: int
  hdr_extraData :: Buffer
  hdr_mixHash :: Buffer
  hdr_nonce :: int

datatype EmptyObject = EmptyObject

record ('w, 'tx, 't, 'rtx, 'res, 'hd, 'bb, 'inner) RethnetModules =
  ethereumjsTransactionToRethnet :: "'tx \<Rightarrow> 'rtx"
  ethereumjsHeaderDataToRethnet :: "BlockHeader \<Rightarrow> int option \<Rightarrow> 'hd"
  rethnetResultToRunTxResult :: "'res \<Rightarrow> js_error + RunTxResult"
  trace_of :: "'res \<Rightarrow> 't"
  inspect :: "'t \<Rightarrow> string"
  hardforkGte :: "string \<Rightarrow> string \<Rightarrow> bool"
  HardforkName_MERGE :: string
  BlockBuilder_new ::
    "'inner \<Rightarrow> EmptyObject \<Rightarrow> BuilderHeader \<Rightarrow> EmptyObject \<Rightarrow> ('bb, 'w) action"
  BlockBuilder_finalize :: "'bb \<Rightarrow> (Buffer \<times> int) list \<Rightarrow> (unit, 'w) action"

record ('w, 'rtx, 'res, 'hd, 'inner) RethnetAdapter =
  state :: "('w, 'inner) RethnetStateManager"
  rethnet :: "('w, 'rtx, 'res, 'hd) Rethnet"
  selectHardfork :: "int \<Rightarrow> string"

text \<open>\<open>Buffer.alloc(n, 0)\<close>, and \<open>bigint.toString(16)\<close>.\<close>

definition Buffer_alloc :: "nat \<Rightarrow> byte \<Rightarrow> Buffer" where
  "Buffer_alloc n fill = replicate n fill"

fun nat_toString16 :: "nat \<Rightarrow> string" where
  "nat_toString16 n =
     (if n < 16 then [hex_digit n] else nat_toString16 (n div 16) @ [hex_digit (n mod 16)])"

declare nat_toString16.simps [simp del]

definition bigint_toString16 :: "int \<Rightarrow> string" where
  "bigint_toString16 i =
     (if i < 0 then ''-'' @ nat_toString16 (nat (- i)) else nat_toString16 (nat i))"

text \<open>
  \<open>_getBlockEnvDifficulty\<close>. The hardfork ordering \<open>hardforkGte\<close> and the name
  \<open>HardforkName.MERGE\<close> come from the library record. The second test of the source,
  \<open>difficulty !== undefined && difficulty > MAX_DIFFICULTY\<close>, reads the difficulty only
  where it is present.
\<close>

definition MAX_DIFFICULTY :: int where
  "MAX_DIFFICULTY = 2 ^ 32 - 1"

definition getBlockEnvDifficulty ::
  "('z world_scheme, 'tx, 't, 'rtx, 'res, 'hd, 'bb, 'inner) RethnetModules
     \<Rightarrow> ('z world_scheme, 'rtx, 'res, 'hd, 'inner) RethnetAdapter
     \<Rightarrow> int \<Rightarrow> int option \<Rightarrow> int option \<Rightarrow> (int option, 'z world_scheme) action" where
  "getBlockEnvDifficulty lib this blockNumber difficulty' mixHash' =
     (let hardfork = selectHardfork this blockNumber;
          isPostMergeHardfork = hardforkGte lib hardfork (HardforkName_MERGE lib)
      in if isPostMergeHardfork then return_action mixHash'
         else if (case difficulty' of None \<Rightarrow> False | Some d \<Rightarrow> d > MAX_DIFFICULTY) then
           bind_action
             (console_trace [JString ''Difficulty is larger than U256::max:'',
                JString (bigint_toString16 (the difficulty'))])
             (\<lambda>_. return_action (Some MAX_DIFFICULTY))
         else return_action difficulty')"

definition RethnetAdapter_dryRun ::
  "('z world_scheme, 'tx, 't, 'rtx, 'res, 'hd, 'bb, 'inner) RethnetModules
     \<Rightarrow> ('z world_scheme, 'rtx, 'res, 'hd, 'inner) RethnetAdapter
     \<Rightarrow> 'tx \<Rightarrow> Block \<Rightarrow> bool option \<Rightarrow> (RunTxResult \<times> 't, 'z world_scheme) action" where
  "RethnetAdapter_dryRun lib this tx blockContext forceBaseFeeZero =
     (let rethnetTx = ethereumjsTransactionToRethnet lib tx in
      bind_action
        (getBlockEnvDifficulty lib this
           (number (header blockContext))
           (Some (difficulty (header blockContext)))
           (Some (bufferToBigInt (mixHash (header blockContext)))))
        (\<lambda>difficulty.
      bind_action
        (guaranteedDryRun (rethnet this) rethnetTx
           \<lparr>cfg_number = number (header blockContext),
            cfg_coinbase = buf (coinbase (header blockContext)),
            cfg_timestamp = timestamp (header blockContext),
            cfg_basefee =
              (if forceBaseFeeZero = Some True then Some 0
               else baseFeePerGas (header blockContext)),
            cfg_gasLimit = gasLimit (header blockContext),
            cfg_difficulty = difficulty\<rparr>)
        (\<lambda>rethnetResult.
           case rethnetResultToRunTxResult lib (rethnet_execResult rethnetResult) of
             Inr result \<Rightarrow>
               return_action (result, trace_of lib (rethnet_execResult rethnetResult))
           | Inl e \<Rightarrow>
               bind_action (console_log [JString ''Rethnet trace'']) (\<lambda>_.
               bind_action
                 (console_log
                    [JString (inspect lib (trace_of lib (rethnet_execResult rethnetResult)))])
                 (\<lambda>_. throw e)))))"

definition RethnetAdapter_getAccount ::
  "('w, 'rtx, 'res, 'hd, 'inner) RethnetAdapter \<Rightarrow> Address \<Rightarrow> (Account, 'w) action" where
  "RethnetAdapter_getAccount this address = state_getAccount (state this) address"

definition RethnetAdapter_getContractStorage ::
  "('w, 'rtx, 'res, 'hd, 'inner) RethnetAdapter \<Rightarrow> Address \<Rightarrow> Buffer \<Rightarrow> (Buffer, 'w) action" where
  "RethnetAdapter_getContractStorage this address key =
     state_getContractStorage (state this) address key"

definition RethnetAdapter_getContractCode ::
  "('w, 'rtx, 'res, 'hd, 'inner) RethnetAdapter \<Rightarrow> Address \<Rightarrow> (Buffer, 'w) action" where
  "RethnetAdapter_getContractCode this address = state_getContractCode (state this) address"

definition RethnetAdapter_putAccount ::
  "('w, 'rtx, 'res, 'hd, 'inner) RethnetAdapter \<Rightarrow> Address \<Rightarrow> Account \<Rightarrow> (unit, 'w) action" where
  "RethnetAdapter_putAccount this address account =
     bind_action (state_putAccount (state this) address account) (\<lambda>_. return_action ())"

definition RethnetAdapter_putContractCode ::
  "('w, 'rtx, 'res, 'hd, 'inner) RethnetAdapter \<Rightarrow> Address \<Rightarrow> Buffer \<Rightarrow> (unit, 'w) action" where
  "RethnetAdapter_putContractCode this address val =
     state_putContractCode (state this) address val"

definition RethnetAdapter_putContractStorage ::
  "('w, 'rtx, 'res, 'hd, 'inner) RethnetAdapter \<Rightarrow> Address \<Rightarrow> Buffer \<Rightarrow> Buffer
     \<Rightarrow> (unit, 'w) action" where
  "RethnetAdapter_putContractStorage this address key val =
     bind_action (state_putContractStorage (state this) address key val)
       (\<lambda>_. return_action ())"

definition RethnetAdapter_getStateRoot ::
  "('w, 'rtx, 'res, 'hd, 'inner) RethnetAdapter \<Rightarrow> (Buffer, 'w) action" where
  "RethnetAdapter_getStateRoot this = state_getStateRoot (state this)"

definition RethnetAdapter_setBlockContext ::
  "('w, 'rtx, 'res, 'hd, 'inner) RethnetAdapter \<Rightarrow> Block \<Rightarrow> Buffer option
     \<Rightarrow> (unit, 'w) action" where
  "RethnetAdapter_setBlockContext this block irregularStateOrUndefined =
     throw (Error ''not implemented'')"

definition RethnetAdapter_restoreContext ::
  "('w, 'rtx, 'res, 'hd, 'inner) RethnetAdapter \<Rightarrow> Buffer \<Rightarrow> (unit, 'w) action" where
  "RethnetAdapter_restoreContext this stateRoot = state_setStateRoot (state this) stateRoot"

definition RethnetAdapter_startBlock ::
  "('w, 'rtx, 'res, 'hd, 'inner) RethnetAdapter \<Rightarrow> (unit, 'w) action" where
  "RethnetAdapter_startBlock this =
     bind_action (state_checkpoint (state this)) (\<lambda>_. return_action ())"

definition RethnetAdapter_runTxInBlock ::
  "('z world_scheme, 'tx, 't, 'rtx, 'res, 'hd, 'bb, 'inner) RethnetModules
     \<Rightarrow> ('z world_scheme, 'rtx, 'res, 'hd, 'inner) RethnetAdapter
     \<Rightarrow> 'tx \<Rightarrow> Block \<Rightarrow> (RunTxResult \<times> 't, 'z world_scheme) action" where
  "RethnetAdapter_runTxInBlock lib this tx block =
     (let rethnetTx = ethereumjsTransactionToRethnet lib tx in
      bind_action
        (getBlockEnvDifficulty lib this
           (number (header block))
           (Some (difficulty (header block)))
           (Some (bufferToBigInt (mixHash (header block)))))
        (\<lambda>difficulty.
      bind_action
        (run (rethnet this) rethnetTx
           (ethereumjsHeaderDataToRethnet lib (header block) difficulty))
        (\<lambda>rethnetResult.
           case rethnetResultToRunTxResult lib rethnetResult of
             Inl e \<Rightarrow> throw e
           | Inr result \<Rightarrow> return_action (result, trace_of lib rethnetResult))))"

text \<open>The "dummy values" of \<open>addBlockRewards\<close>; \<open>Buffer.allocUnsafe(0)\<close> has no bytes.\<close>

definition dummy_header :: BuilderHeader where
  "dummy_header =
     \<lparr>hdr_parentHash = Buffer_alloc 32 0,
      hdr_ommersHash = Buffer_alloc 32 0,
      hdr_beneficiary = Buffer_alloc 20 0,
      hdr_stateRoot = Buffer_alloc 32 0,
      hdr_transactionsRoot = Buffer_alloc 32 0,
      hdr_receiptsRoot = Buffer_alloc 32 0,
      hdr_logsBloom = Buffer_alloc 256 0,
      hdr_difficulty = 0,
      hdr_number = 0,
      hdr_gasLimit = 0,
      hdr_gasUsed = 0,
      hdr_timestamp = 0,
      hdr_extraData = [],
      hdr_mixHash = Buffer_alloc 32 0,
      hdr_nonce = 0\<rparr>"

definition RethnetAdapter_addBlockRewards ::
  "('w, 'tx, 't, 'rtx, 'res, 'hd, 'bb, 'inner) RethnetModules
     \<Rightarrow> ('w, 'rtx, 'res, 'hd, 'inner) RethnetAdapter
     \<Rightarrow> (Address \<times> int) list \<Rightarrow> (unit, 'w) action" where
  "RethnetAdapter_addBlockRewards lib this rewards =
     bind_action
       (BlockBuilder_new lib (state_asInner (state this)) EmptyObject dummy_header EmptyObject)
       (\<lambda>blockBuilder.
     bind_action
       (BlockBuilder_finalize lib blockBuilder
          (map (\<lambda>(address, reward). (buf address, reward)) rewards))
       (\<lambda>_. return_action ()))"

definition RethnetAdapter_sealBlock ::
  "('w, 'rtx, 'res, 'hd, 'inner) RethnetAdapter \<Rightarrow> (unit, 'w) action" where
  "RethnetAdapter_sealBlock this = return_action ()"

definition RethnetAdapter_revertBlock ::
  "('w, 'rtx, 'res, 'hd, 'inner) RethnetAdapter \<Rightarrow> (unit, 'w) action" where
  "RethnetAdapter_revertBlock this =
     bind_action (state_revert (state this)) (\<lambda>_. return_action ())"

definition RethnetAdapter_traceTransaction ::
  "('w, 'rtx, 'res, 'hd, 'inner) RethnetAdapter \<Rightarrow> Buffer \<Rightarrow> Block \<Rightarrow> RpcDebugTracingConfig
     \<Rightarrow> (RpcDebugTraceOutput, 'w) action" where
  "RethnetAdapter_traceTransaction this hash block config = throw (Error ''not implemented'')"

definition RethnetAdapter_enableTracing ::
  "('w, 'rtx, 'res, 'hd, 'inner) RethnetAdapter \<Rightarrow> TracingCallbacks \<Rightarrow> (unit, 'w) action" where
  "RethnetAdapter_enableTracing this callbacks = throw (Error ''not implemented'')"

definition RethnetAdapter_disableTracing ::
  "('w, 'rtx, 'res, 'hd, 'inner) RethnetAdapter \<Rightarrow> (unit, 'w) action" where
  "RethnetAdapter_disableTracing this = throw (Error ''not implemented'')"

text \<open>The candidate adapter seen through the interface.\<close>

definition RethnetAdapter_as_VMAdapter ::
  "('z world_scheme, 'tx, 't, 'rtx, 'res, 'hd, 'bb, 'inner) RethnetModules
     \<Rightarrow> ('z world_scheme, 'rtx, 'res, 'hd, 'inner) RethnetAdapter
     \<Rightarrow> ('z world_scheme, 'tx, 't) VMAdapter" where
  "RethnetAdapter_as_VMAdapter lib this =
     \<lparr>dryRun = RethnetAdapter_dryRun lib this,
      getStateRoot = RethnetAdapter_getStateRoot this,
      getAccount = RethnetAdapter_getAccount this,
      getContractStorage = RethnetAdapter_getContractStorage this,
      getContractCode = RethnetAdapter_getContractCode this,
      putAccount = RethnetAdapter_putAccount this,
      putContractCode = RethnetAdapter_putContractCode this,
      putContractStorage = RethnetAdapter_putContractStorage this,
      restoreContext = RethnetAdapter_restoreContext this,
      traceTransaction = RethnetAdapter_traceTransaction this,
      enableTracing = RethnetAdapter_enableTracing this,
      disableTracing = RethnetAdapter_disableTracing this,
      setBlockContext = RethnetAdapter_setBlockContext this,
      startBlock = RethnetAdapter_startBlock this,
      runTxInBlock = RethnetAdapter_runTxInBlock lib this,
      addBlockRewards = RethnetAdapter_addBlockRewards lib this,
      sealBlock = RethnetAdapter_sealBlock this,
      revertBlock = RethnetAdapter_revertBlock this\<rparr>"

section \<open>The comparator gated as the specification words it\<close>

text \<open>
  The specification compares \<open>returnValue\<close> "only when no contract was created in either
  result". \<open>assertEqualRunTxResults_either\<close> has the checks of
  \<open>assertEqualRunTxResults\<close> with the last one gated on both results; the source gates
  it on the first result alone.
\<close>

definition assertEqualRunTxResults_either ::
  "RunTxResult \<Rightarrow> RunTxResult \<Rightarrow> (unit, 'z world_scheme) action" where
  "assertEqualRunTxResults_either ethereumJSResult rethnetResult =
    (if totalGasSpent ethereumJSResult \<noteq> totalGasSpent rethnetResult then
       bind_action
         (console_trace [JTemplate [JString ''Different totalGasSpent: '',
            JBigInt (totalGasSpent ethereumJSResult), JString '' !== '',
            JBigInt (totalGasSpent rethnetResult)]])
         (\<lambda>_. throw (Error ''Different totalGasSpent''))
     else if gasRefund ethereumJSResult \<noteq> gasRefund rethnetResult then
       bind_action
         (console_trace [JTemplate [JString ''Different gasRefund: '',
            JBigInt (gasRefund ethereumJSResult), JString '' !== '',
            JBigInt (gasRefund rethnetResult)]])
         (\<lambda>_. throw (Error ''Different gasRefund''))
     else if map_option Address_toString (createdAddress ethereumJSResult)
           \<noteq> map_option Address_toString (createdAddress rethnetResult) then
       bind_action
         (console_trace [JTemplate [JString ''Different createdAddress: '',
            optional_string (map_option Address_toString (createdAddress ethereumJSResult)),
            JString '' !== '',
            optional_string (map_option Address_toString (createdAddress rethnetResult))]])
         (\<lambda>_. throw (Error ''Different createdAddress''))
     else if map_option error (exceptionError (execResult ethereumJSResult))
           \<noteq> map_option error (exceptionError (execResult rethnetResult)) then
       bind_action
         (console_trace [JTemplate [JString ''Different exceptionError.error: '',
            optional_string (map_option error (exceptionError (execResult ethereumJSResult))),
            JString '' !== '',
            optional_string (map_option error (exceptionError (execResult rethnetResult)))]])
         (\<lambda>_. throw (Error ''Different exceptionError.error''))
     else if map_option errorType (exceptionError (execResult ethereumJSResult))
           \<noteq> map_option errorType (exceptionError (execResult rethnetResult)) then
       bind_action
         (console_trace [JTemplate [JString ''Different exceptionError.errorType: '',
            optional_string (map_option errorType (exceptionError (execResult ethereumJSResult))),
            JString '' !== '',
            optional_string (map_option errorType (exceptionError (execResult rethnetResult)))]])
         (\<lambda>_. throw (Error ''Different exceptionError.errorType''))
     else if createdAddress ethereumJSResult = None \<and> createdAddress rethnetResult = None then
       (if toString_hex (returnValue (execResult ethereumJSResult))
            \<noteq> toString_hex (returnValue (execResult rethnetResult)) then
          bind_action
            (console_trace [JTemplate [JString ''Different returnValue: '',
               JString (toString_hex (returnValue (execResult ethereumJSResult))),
               JString '' !== '',
               JString (toString_hex (returnValue (execResult rethnetResult)))]])
            (\<lambda>_. throw (Error ''Different returnValue''))
        else return_action ())
     else return_action ())"

section \<open>Vocabulary of the statements\<close>

text \<open>
  \<open>diverged field x y\<close> is how every comparison of dual.ts fails: one
  \<open>console.trace\<close> of the template \<open>Different <field>: <x> !== <y>\<close>, then the
  exception \<open>Error("Different <field>")\<close>.
\<close>

definition diverged :: "string \<Rightarrow> jsval \<Rightarrow> jsval \<Rightarrow> ('a, 'z world_scheme) action" where
  "diverged field x y w =
     (Inl (Error (''Different '' @ field)),
      w\<lparr>console := console w @
         [ConsoleTrace [JTemplate [JString (''Different '' @ field @ '': ''), x,
            JString '' !== '', y]]]\<rparr>)"

text \<open>What the \<open>catch\<close> block of \<open>dryRun\<close> and \<open>runTxInBlock\<close> prints for two trace texts.\<close>

definition trace_dump :: "string \<Rightarrow> string \<Rightarrow> console_event list" where
  "trace_dump ethereumJSText rethnetText =
     [ConsoleLog [JString ''EthereumJS trace''], ConsoleLog [JString ethereumJSText],
      ConsoleLog [], ConsoleLog [JString ''Rethnet trace''], ConsoleLog [JString rethnetText]]"

text \<open>The comparison got as far as the \<open>returnValue\<close> check: none of the five earlier
  checks threw.\<close>

definition reaches_returnValue_check :: "js_error + unit \<Rightarrow> bool" where
  "reaches_returnValue_check r =
     (r \<noteq> Inl (Error ''Different totalGasSpent'') \<and>
      r \<noteq> Inl (Error ''Different gasRefund'') \<and>
      r \<noteq> Inl (Error ''Different createdAddress'') \<and>
      r \<noteq> Inl (Error ''Different exceptionError.error'') \<and>
      r \<noteq> Inl (Error ''Different exceptionError.errorType''))"

definition all_zero :: "Buffer \<Rightarrow> bool" where
  "all_zero b = list_all (\<lambda>x. x = 0) b"

section \<open>In-memory backends\<close>

text \<open>
  Two small stores, one per backend, to run the adapters on concrete inputs. The
  reference backend is an in-memory \<open>VMAdapter\<close>; the candidate is the
  \<open>RethnetAdapter\<close> above over an in-memory state manager, engine and block builder.
  Neither checks the order of the block lifecycle calls.
\<close>

record store =
  st_accounts :: "Address \<Rightarrow> Account"
  st_code :: "Address \<Rightarrow> Buffer"
  st_storage :: "Address \<Rightarrow> Buffer \<Rightarrow> Buffer"
  st_root :: Buffer
  st_next_result :: RunTxResult
  st_checkpoints :: nat

record example_world = world +
  reference_store :: store
  candidate_store :: store

definition credit :: "Address \<times> int \<Rightarrow> store \<Rightarrow> store" where
  "credit r s =
     s\<lparr>st_accounts := (st_accounts s)
        (fst r := (st_accounts s (fst r))\<lparr>balance := balance (st_accounts s (fst r)) + snd r\<rparr>)\<rparr>"

definition on_reference :: "(store \<Rightarrow> store) \<Rightarrow> (unit, example_world) action" where
  "on_reference f w = (Inr (), w\<lparr>reference_store := f (reference_store w)\<rparr>)"

definition on_candidate :: "(store \<Rightarrow> store) \<Rightarrow> (unit, example_world) action" where
  "on_candidate f w = (Inr (), w\<lparr>candidate_store := f (candidate_store w)\<rparr>)"

definition memory_reference :: "(example_world, unit, string) VMAdapter" where
  "memory_reference =
     \<lparr>dryRun = (\<lambda>tx b f w. (Inr (st_next_result (reference_store w), ''reference trace''), w)),
      getStateRoot = (\<lambda>w. (Inr (st_root (reference_store w)), w)),
      getAccount = (\<lambda>a w. (Inr (st_accounts (reference_store w) a), w)),
      getContractStorage = (\<lambda>a k w. (Inr (st_storage (reference_store w) a k), w)),
      getContractCode = (\<lambda>a w. (Inr (st_code (reference_store w) a), w)),
      putAccount = (\<lambda>a x. on_reference (\<lambda>s. s\<lparr>st_accounts := (st_accounts s)(a := x)\<rparr>)),
      putContractCode = (\<lambda>a x. on_reference (\<lambda>s. s\<lparr>st_code := (st_code s)(a := x)\<rparr>)),
      putContractStorage = (\<lambda>a k x. on_reference
         (\<lambda>s. s\<lparr>st_storage := (st_storage s)(a := (st_storage s a)(k := x))\<rparr>)),
      restoreContext = (\<lambda>r. on_reference (\<lambda>s. s\<lparr>st_root := r\<rparr>)),
      traceTransaction = (\<lambda>h b c. throw (Error ''no trace recorded'')),
      enableTracing = (\<lambda>c. return_action ()),
      disableTracing = return_action (),
      setBlockContext = (\<lambda>b r. return_action ()),
      startBlock = on_reference (\<lambda>s. s\<lparr>st_checkpoints := Suc (st_checkpoints s)\<rparr>),
      runTxInBlock = (\<lambda>tx b w. (Inr (st_next_result (reference_store w), ''reference trace''), w)),
      addBlockRewards = (\<lambda>rewards. on_reference (\<lambda>s. fold credit rewards s)),
      sealBlock = on_reference (\<lambda>s. s\<lparr>st_checkpoints := st_checkpoints s - 1\<rparr>),
      revertBlock = on_reference (\<lambda>s. s\<lparr>st_checkpoints := st_checkpoints s - 1\<rparr>)\<rparr>"

definition memory_state :: "(example_world, unit) RethnetStateManager" where
  "memory_state =
     \<lparr>state_getAccount = (\<lambda>a w. (Inr (st_accounts (candidate_store w) a), w)),
      state_getContractStorage = (\<lambda>a k w. (Inr (st_storage (candidate_store w) a k), w)),
      state_getContractCode = (\<lambda>a w. (Inr (st_code (candidate_store w) a), w)),
      state_putAccount = (\<lambda>a x. on_candidate (\<lambda>s. s\<lparr>st_accounts := (st_accounts s)(a := x)\<rparr>)),
      state_putContractCode = (\<lambda>a x. on_candidate (\<lambda>s. s\<lparr>st_code := (st_code s)(a := x)\<rparr>)),
      state_putContractStorage = (\<lambda>a k x. on_candidate
         (\<lambda>s. s\<lparr>st_storage := (st_storage s)(a := (st_storage s a)(k := x))\<rparr>)),
      state_getStateRoot = (\<lambda>w. (Inr (st_root (candidate_store w)), w)),
      state_setStateRoot = (\<lambda>r. on_candidate (\<lambda>s. s\<lparr>st_root := r\<rparr>)),
      state_checkpoint = on_candidate (\<lambda>s. s\<lparr>st_checkpoints := Suc (st_checkpoints s)\<rparr>),
      state_revert = on_candidate (\<lambda>s. s\<lparr>st_checkpoints := st_checkpoints s - 1\<rparr>),
      state_asInner = ()\<rparr>"

definition memory_engine :: "(example_world, unit, RunTxResult, unit) Rethnet" where
  "memory_engine =
     \<lparr>guaranteedDryRun =
        (\<lambda>tx env w. (Inr \<lparr>rethnet_execResult = st_next_result (candidate_store w)\<rparr>, w)),
      run = (\<lambda>tx h w. (Inr (st_next_result (candidate_store w)), w))\<rparr>"

definition memory_modules ::
  "(example_world, unit, string, unit, RunTxResult, unit, unit, unit) RethnetModules" where
  "memory_modules =
     \<lparr>ethereumjsTransactionToRethnet = (\<lambda>tx. ()),
      ethereumjsHeaderDataToRethnet = (\<lambda>h d. ()),
      rethnetResultToRunTxResult = Inr,
      trace_of = (\<lambda>r. ''candidate trace''),
      inspect = (\<lambda>t. t),
      hardforkGte = (\<lambda>a b. a = b \<or> b = ''london''),
      HardforkName_MERGE = ''merge'',
      BlockBuilder_new = (\<lambda>inner c h opts. return_action ()),
      BlockBuilder_finalize =
        (\<lambda>bb rewards. on_candidate (\<lambda>s. fold credit (map (\<lambda>(b, r). (Address b, r)) rewards) s))\<rparr>"

definition memory_candidate_object ::
  "(example_world, unit, RunTxResult, unit, unit) RethnetAdapter" where
  "memory_candidate_object =
     \<lparr>state = memory_state, rethnet = memory_engine,
      selectHardfork = (\<lambda>n. if n < 100 then ''london'' else ''merge'')\<rparr>"

definition memory_candidate :: "(example_world, unit, string) VMAdapter" where
  "memory_candidate = RethnetAdapter_as_VMAdapter memory_modules memory_candidate_object"

definition memory_dual :: "(example_world, unit, string) DualModeAdapter" where
  "memory_dual = \<lparr>ethereumJSAdapter = memory_reference, rethnetAdapter = memory_candidate\<rparr>"

text \<open>
  The traces of the in-memory backends are strings without characters to escape;
  \<open>JSON.stringify\<close> of such a string is the string between double quotes.
\<close>

definition json_quote :: "string \<Rightarrow> string" where
  "json_quote t = CHR 0x22 # t @ [CHR 0x22]"

definition memory_JSON :: "string JSON" where
  "memory_JSON =
     \<lparr>stringify = (\<lambda>t. Inr (json_quote t)),
      stringify_bigint_replacer = (\<lambda>t. Inr (json_quote t))\<rparr>"

text \<open>An empty store, an empty world, and the values the examples use.\<close>

definition empty_account :: Account where
  "empty_account = \<lparr>nonce = 0, balance = 0, storageRoot = [], codeHash = []\<rparr>"

definition plain_result :: RunTxResult where
  "plain_result =
     \<lparr>totalGasSpent = 21000, gasRefund = 0, createdAddress = None,
      execResult = \<lparr>exceptionError = None, returnValue = []\<rparr>\<rparr>"

definition empty_store :: store where
  "empty_store =
     \<lparr>st_accounts = (\<lambda>a. empty_account), st_code = (\<lambda>a. []), st_storage = (\<lambda>a k. []),
      st_root = [], st_next_result = plain_result, st_checkpoints = 0\<rparr>"

definition fresh_world :: example_world where
  "fresh_world = \<lparr>console = [], reference_store = empty_store, candidate_store = empty_store\<rparr>"

definition example_block :: "int \<Rightarrow> Block" where
  "example_block d =
     \<lparr>header = \<lparr>number = 7, coinbase = Address [], timestamp = 0, baseFeePerGas = None,
        gasLimit = 30000000, difficulty = d, mixHash = [1, 0]\<rparr>\<rparr>"

text \<open>A world in which the two stores disagree on every read.\<close>

definition mismatched_world :: example_world where
  "mismatched_world =
     \<lparr>console = [],
      reference_store = \<lparr>st_accounts = (\<lambda>a. empty_account\<lparr>balance := 100\<rparr>),
         st_code = (\<lambda>a. [96, 0]), st_storage = (\<lambda>a k. [1]), st_root = [170],
         st_next_result = plain_result, st_checkpoints = 0\<rparr>,
      candidate_store = \<lparr>st_accounts = (\<lambda>a. empty_account\<lparr>balance := 99\<rparr>),
         st_code = (\<lambda>a. []), st_storage = (\<lambda>a k. [2]), st_root = [187],
         st_next_result = plain_result\<lparr>gasRefund := 1\<rparr>, st_checkpoints = 0\<rparr>\<rparr>"

text \<open>Two results of a contract creation that differ in \<open>returnValue\<close> only.\<close>

definition creation_result :: "Buffer \<Rightarrow> RunTxResult" where
  "creation_result code =
     \<lparr>totalGasSpent = 53000, gasRefund = 0, createdAddress = Some (Address [222, 173]),
      execResult = \<lparr>exceptionError = None, returnValue = code\<rparr>\<rparr>"

text \<open>Library modules whose block builder refuses every header but the dummy one.\<close>

definition strict_builder_modules ::
  "(example_world, unit, string, unit, RunTxResult, unit, unit, unit) RethnetModules" where
  "strict_builder_modules =
     memory_modules\<lparr>BlockBuilder_new :=
       (\<lambda>inner c h opts. if h = dummy_header then return_action ()
                          else throw (Error ''unexpected header''))\<rparr>"

text \<open>Library modules whose block builder refuses every header.\<close>

definition refusing_builder_modules ::
  "(example_world, unit, string, unit, RunTxResult, unit, unit, unit) RethnetModules" where
  "refusing_builder_modules =
     memory_modules\<lparr>BlockBuilder_new :=
       (\<lambda>inner c h opts. throw (Error ''block builder refused''))\<rparr>"

text \<open>A result that failed with the given error kind and category.\<close>

definition failed_result :: "string \<Rightarrow> string \<Rightarrow> RunTxResult" where
  "failed_result kind category =
     \<lparr>totalGasSpent = 21000, gasRefund = 0, createdAddress = None,
      execResult = \<lparr>exceptionError = Some \<lparr>error = kind, errorType = category\<rparr>,
                    returnValue = []\<rparr>\<rparr>"


section \<open>Hexadecimal text determines the bytes\<close>

lemma hex_digit_inj: "i < 16 \<Longrightarrow> j < 16 \<Longrightarrow> hex_digit i = hex_digit j \<Longrightarrow> i = j"
proof -
  assume a: "i < 16" "j < 16" "hex_digit i = hex_digit j"
  have d: "distinct ''0123456789abcdef''" by simp
  have l: "length ''0123456789abcdef'' = 16" by simp
  from a show ?thesis unfolding hex_digit_def
    using nth_eq_iff_index_eq [OF d, of i j] l by simp
qed

lemma byte_hex_inj: "byte_hex a = byte_hex b \<Longrightarrow> a = b"
proof -
  assume h: "byte_hex a = byte_hex b"
  have "unat a div 16 < 16" "unat b div 16 < 16"
    using unsigned_less [of a, where ?'a = nat] unsigned_less [of b, where ?'a = nat]
    by simp_all
  with h have q: "unat a div 16 = unat b div 16"
    by (auto simp: byte_hex_def intro: hex_digit_inj)
  have "unat a mod 16 < 16" "unat b mod 16 < 16" by simp_all
  with h have r: "unat a mod 16 = unat b mod 16"
    by (auto simp: byte_hex_def intro: hex_digit_inj)
  have "unat a = unat b"
    using q r by (metis div_mult_mod_eq)
  then show ?thesis by (simp add: word_unat_eq_iff)
qed

lemma toString_hex_inj: "toString_hex xs = toString_hex ys \<Longrightarrow> xs = ys"
proof (induction xs arbitrary: ys)
  case Nil
  then show ?case by (cases ys) (simp_all add: toString_hex_def byte_hex_def)
next
  case (Cons x xs)
  then show ?case
  proof (cases ys)
    case Nil
    with Cons.prems show ?thesis by (simp add: toString_hex_def byte_hex_def)
  next
    case (Cons y ys')
    with Cons.prems have "byte_hex x @ toString_hex xs = byte_hex y @ toString_hex ys'"
      by (simp add: toString_hex_def)
    moreover have "length (byte_hex x) = length (byte_hex y)" by (simp add: byte_hex_def)
    ultimately have "byte_hex x = byte_hex y" "toString_hex xs = toString_hex ys'"
      by simp_all
    with Cons.IH Cons show ?thesis by (simp add: byte_hex_inj)
  qed
qed

lemma toString_hex_eq_iff: "(toString_hex xs = toString_hex ys) = (xs = ys)"
  using toString_hex_inj by blast

lemma Address_toString_eq_iff: "(Address_toString a = Address_toString b) = (a = b)"
  by (cases a; cases b) (simp add: Address_toString_def toString_hex_eq_iff)

lemma created_toString_eq_iff:
  "(map_option Address_toString x = map_option Address_toString y) = (x = y)"
  by (cases x; cases y) (simp_all add: Address_toString_eq_iff)

lemma optional_string_eq_iff: "(optional_string x = optional_string y) = (x = y)"
  by (cases x; cases y) (simp_all add: optional_string_def)

lemma toString_hex_examples:
  "toString_hex [170] = ''aa''" "toString_hex [187] = ''bb''"
  by (simp_all add: toString_hex_def byte_hex_def hex_digit_def)


section \<open>The comparators\<close>

lemmas action_defs =
  bind_action_def throw_def return_action_def console_trace_def console_log_def

lemma assertEqualAccounts_passes_iff:
  "(fst (assertEqualAccounts a b w) = Inr ()) =
     (balance a = balance b \<and> nonce a = nonce b \<and> codeHash a = codeHash b)"
  by (auto simp: assertEqualAccounts_def action_defs)

lemma assertEqualAccounts_storageRoot:
  "assertEqualAccounts (a\<lparr>storageRoot := r\<rparr>) (b\<lparr>storageRoot := r'\<rparr>) w
     = assertEqualAccounts a b w"
  by (simp add: assertEqualAccounts_def)

lemma returnValue_error_iff:
  "(fst (assertEqualRunTxResults a b w) = Inl (Error ''Different returnValue'')) =
     (totalGasSpent a = totalGasSpent b \<and> gasRefund a = gasRefund b \<and>
      createdAddress a = None \<and> createdAddress b = None \<and>
      map_option error (exceptionError (execResult a))
        = map_option error (exceptionError (execResult b)) \<and>
      map_option errorType (exceptionError (execResult a))
        = map_option errorType (exceptionError (execResult b)) \<and>
      returnValue (execResult a) \<noteq> returnValue (execResult b))"
  by (auto simp: assertEqualRunTxResults_def action_defs toString_hex_eq_iff)

lemma assertEqualRunTxResults_passes_iff:
  "(fst (assertEqualRunTxResults a b w) = Inr ()) =
     (totalGasSpent a = totalGasSpent b \<and> gasRefund a = gasRefund b \<and>
      createdAddress a = createdAddress b \<and>
      map_option error (exceptionError (execResult a))
        = map_option error (exceptionError (execResult b)) \<and>
      map_option errorType (exceptionError (execResult a))
        = map_option errorType (exceptionError (execResult b)) \<and>
      (createdAddress a = None \<longrightarrow> returnValue (execResult a) = returnValue (execResult b)))"
  by (auto simp: assertEqualRunTxResults_def action_defs toString_hex_eq_iff
      created_toString_eq_iff)

lemma returnValue_irrelevant_after_creation:
  "createdAddress a \<noteq> None \<or> createdAddress b \<noteq> None \<Longrightarrow>
     assertEqualRunTxResults (a\<lparr>execResult := (execResult a)\<lparr>returnValue := x\<rparr>\<rparr>)
        (b\<lparr>execResult := (execResult b)\<lparr>returnValue := y\<rparr>\<rparr>) w
     = assertEqualRunTxResults a b w"
  by (auto simp: assertEqualRunTxResults_def action_defs)

lemma reaching_the_gate:
  "reaches_returnValue_check (fst (assertEqualRunTxResults a b w)) \<Longrightarrow>
     (createdAddress a = None) = (createdAddress b = None)"
  by (auto simp: reaches_returnValue_check_def assertEqualRunTxResults_def action_defs
      split: if_splits)

lemma gate_variants_agree:
  "assertEqualRunTxResults a b w = assertEqualRunTxResults_either a b w"
  by (auto simp: assertEqualRunTxResults_either_def assertEqualRunTxResults_def action_defs)

text \<open>
  What each comparator does at the first field that differs, in the order of its checks:
  it reports that field with the two values, the reference's first.
\<close>

lemma run_tx_report:
  "totalGasSpent a \<noteq> totalGasSpent b \<Longrightarrow>
     assertEqualRunTxResults a b w
       = diverged ''totalGasSpent'' (JBigInt (totalGasSpent a)) (JBigInt (totalGasSpent b)) w"
  "totalGasSpent a = totalGasSpent b \<Longrightarrow> gasRefund a \<noteq> gasRefund b \<Longrightarrow>
     assertEqualRunTxResults a b w
       = diverged ''gasRefund'' (JBigInt (gasRefund a)) (JBigInt (gasRefund b)) w"
  "totalGasSpent a = totalGasSpent b \<Longrightarrow> gasRefund a = gasRefund b \<Longrightarrow>
   createdAddress a \<noteq> createdAddress b \<Longrightarrow>
     assertEqualRunTxResults a b w
       = diverged ''createdAddress''
           (optional_string (map_option Address_toString (createdAddress a)))
           (optional_string (map_option Address_toString (createdAddress b))) w"
  "totalGasSpent a = totalGasSpent b \<Longrightarrow> gasRefund a = gasRefund b \<Longrightarrow>
   createdAddress a = createdAddress b \<Longrightarrow>
   map_option error (exceptionError (execResult a))
     \<noteq> map_option error (exceptionError (execResult b)) \<Longrightarrow>
     assertEqualRunTxResults a b w
       = diverged ''exceptionError.error''
           (optional_string (map_option error (exceptionError (execResult a))))
           (optional_string (map_option error (exceptionError (execResult b)))) w"
  "totalGasSpent a = totalGasSpent b \<Longrightarrow> gasRefund a = gasRefund b \<Longrightarrow>
   createdAddress a = createdAddress b \<Longrightarrow>
   map_option error (exceptionError (execResult a))
     = map_option error (exceptionError (execResult b)) \<Longrightarrow>
   map_option errorType (exceptionError (execResult a))
     \<noteq> map_option errorType (exceptionError (execResult b)) \<Longrightarrow>
     assertEqualRunTxResults a b w
       = diverged ''exceptionError.errorType''
           (optional_string (map_option errorType (exceptionError (execResult a))))
           (optional_string (map_option errorType (exceptionError (execResult b)))) w"
  "totalGasSpent a = totalGasSpent b \<Longrightarrow> gasRefund a = gasRefund b \<Longrightarrow>
   createdAddress a = createdAddress b \<Longrightarrow>
   map_option error (exceptionError (execResult a))
     = map_option error (exceptionError (execResult b)) \<Longrightarrow>
   map_option errorType (exceptionError (execResult a))
     = map_option errorType (exceptionError (execResult b)) \<Longrightarrow>
   createdAddress a = None \<Longrightarrow>
   returnValue (execResult a) \<noteq> returnValue (execResult b) \<Longrightarrow>
     assertEqualRunTxResults a b w
       = diverged ''returnValue'' (JString (toString_hex (returnValue (execResult a))))
           (JString (toString_hex (returnValue (execResult b)))) w"
  by (simp_all add: assertEqualRunTxResults_def diverged_def action_defs
        created_toString_eq_iff toString_hex_eq_iff)

lemma account_report:
  "balance p \<noteq> balance q \<Longrightarrow>
     assertEqualAccounts p q w
       = diverged ''balance'' (JBigInt (balance p)) (JBigInt (balance q)) w"
  "balance p = balance q \<Longrightarrow> codeHash p \<noteq> codeHash q \<Longrightarrow>
     assertEqualAccounts p q w
       = diverged ''codeHash'' (JBuffer (codeHash p)) (JBuffer (codeHash q)) w"
  "balance p = balance q \<Longrightarrow> codeHash p = codeHash q \<Longrightarrow> nonce p \<noteq> nonce q \<Longrightarrow>
     assertEqualAccounts p q w
       = diverged ''nonce'' (JBigInt (nonce p)) (JBigInt (nonce q)) w"
  by (simp_all add: assertEqualAccounts_def diverged_def action_defs)

text \<open>
  Claim C5. Two accounts pass \<open>assertEqualAccounts\<close> exactly when their balances are the
  same integer, their nonces are the same integer and their codeHash buffers hold the same
  bytes. storageRoot takes no part: replacing it on either side changes neither the
  verdict nor what is written to the console.
\<close>

theorem assertEqualAccounts_ignores_storageRoot:
  "(fst (assertEqualAccounts a b w) = Inr ()) =
     (balance a = balance b \<and> nonce a = nonce b \<and> codeHash a = codeHash b)
   \<and> assertEqualAccounts (a\<lparr>storageRoot := r\<rparr>) (b\<lparr>storageRoot := r'\<rparr>) w
       = assertEqualAccounts a b w"
  using assertEqualAccounts_passes_iff [of a b w]
    assertEqualAccounts_storageRoot [where a = a and b = b and r = r and r' = r' and w = w]
  by blast

theorem assertEqualAccounts_ignores_storageRoot_witness:
  "fst (assertEqualAccounts \<lparr>nonce = 1, balance = 100, storageRoot = [1], codeHash = [2]\<rparr>
          \<lparr>nonce = 1, balance = 100, storageRoot = [9], codeHash = [2]\<rparr> fresh_world) = Inr ()"
  using assertEqualAccounts_ignores_storageRoot
    [of "\<lparr>nonce = 1, balance = 100, storageRoot = [1], codeHash = [2]\<rparr>"
      "\<lparr>nonce = 1, balance = 100, storageRoot = [9], codeHash = [2]\<rparr>" fresh_world]
  by simp

text \<open>
  Claim C3. The error "Different returnValue" is raised exactly when every earlier check
  passes, no contract was created in either result and the returnValue bytes differ. The
  comparison as a whole passes exactly when the compared fields agree, returnValue being
  one of them only when no contract was created. When a contract was created in either
  result, the returnValue of both can be replaced by anything without changing the
  outcome.
\<close>

theorem returnValue_compared_only_without_creation:
  "(fst (assertEqualRunTxResults a b w) = Inl (Error ''Different returnValue'')) =
     (totalGasSpent a = totalGasSpent b \<and> gasRefund a = gasRefund b \<and>
      createdAddress a = None \<and> createdAddress b = None \<and>
      map_option error (exceptionError (execResult a))
        = map_option error (exceptionError (execResult b)) \<and>
      map_option errorType (exceptionError (execResult a))
        = map_option errorType (exceptionError (execResult b)) \<and>
      returnValue (execResult a) \<noteq> returnValue (execResult b))
   \<and>
   (fst (assertEqualRunTxResults a b w) = Inr ()) =
     (totalGasSpent a = totalGasSpent b \<and> gasRefund a = gasRefund b \<and>
      createdAddress a = createdAddress b \<and>
      map_option error (exceptionError (execResult a))
        = map_option error (exceptionError (execResult b)) \<and>
      map_option errorType (exceptionError (execResult a))
        = map_option errorType (exceptionError (execResult b)) \<and>
      (createdAddress a = None \<longrightarrow> returnValue (execResult a) = returnValue (execResult b)))
   \<and>
   (createdAddress a \<noteq> None \<or> createdAddress b \<noteq> None \<longrightarrow>
      assertEqualRunTxResults (a\<lparr>execResult := (execResult a)\<lparr>returnValue := x\<rparr>\<rparr>)
        (b\<lparr>execResult := (execResult b)\<lparr>returnValue := y\<rparr>\<rparr>) w
      = assertEqualRunTxResults a b w)"
  using returnValue_error_iff [of a b w] assertEqualRunTxResults_passes_iff [of a b w]
    returnValue_irrelevant_after_creation [of a b x y w]
  by blast

theorem returnValue_compared_only_without_creation_witness:
  "fst (assertEqualRunTxResults (creation_result [96, 0]) (creation_result []) fresh_world)
     = Inr ()
   \<and> fst (assertEqualRunTxResults plain_result
        (plain_result\<lparr>execResult := \<lparr>exceptionError = None, returnValue = [1]\<rparr>\<rparr>) fresh_world)
       = Inl (Error ''Different returnValue'')"
  using returnValue_compared_only_without_creation
      [of "creation_result [96, 0]" "creation_result []" fresh_world]
    returnValue_compared_only_without_creation
      [of plain_result
        "plain_result\<lparr>execResult := \<lparr>exceptionError = None, returnValue = [1]\<rparr>\<rparr>" fresh_world]
  by (simp add: creation_result_def plain_result_def)

text \<open>
  Claim C9. When none of the five checks before the returnValue gate threw, the first
  result's createdAddress is absent exactly when the second's is. So the gate of the
  source, on the first result alone, decides as the gate on both results does:
  \<open>assertEqualRunTxResults\<close> and \<open>assertEqualRunTxResults_either\<close> are the same function.
\<close>

theorem gate_on_reference_is_gate_on_both:
  "(reaches_returnValue_check (fst (assertEqualRunTxResults a b w)) \<longrightarrow>
      (createdAddress a = None) = (createdAddress b = None))
   \<and> assertEqualRunTxResults a b w = assertEqualRunTxResults_either a b w"
  using reaching_the_gate [of a b w] gate_variants_agree [of a b w] by blast

theorem gate_on_reference_is_gate_on_both_witness:
  "reaches_returnValue_check
     (fst (assertEqualRunTxResults (creation_result [96, 0]) (creation_result []) fresh_world))
   \<and> (createdAddress (creation_result [96, 0]) = None)
       = (createdAddress (creation_result []) = None)
   \<and> assertEqualRunTxResults (creation_result [96, 0]) (creation_result []) fresh_world
       = assertEqualRunTxResults_either (creation_result [96, 0]) (creation_result [])
           fresh_world"
proof -
  have "fst (assertEqualRunTxResults (creation_result [96, 0]) (creation_result []) fresh_world)
      = Inr ()"
    by (simp add: assertEqualRunTxResults_passes_iff creation_result_def)
  then have "reaches_returnValue_check
     (fst (assertEqualRunTxResults (creation_result [96, 0]) (creation_result []) fresh_world))"
    by (simp add: reaches_returnValue_check_def)
  with gate_on_reference_is_gate_on_both
    [of "creation_result [96, 0]" "creation_result []" fresh_world]
  show ?thesis by blast
qed

section \<open>Read-compare operations of the Dual Adapter\<close>

lemma print_traces_and_rethrow_ok:
  "stringify json ta = Inr sa \<Longrightarrow> stringify_bigint_replacer json tb = Inr sb \<Longrightarrow>
     print_traces_and_rethrow json ta tb e w
       = (Inl e, w\<lparr>console := console w @ trace_dump sa sb\<rparr>)"
  by (simp add: print_traces_and_rethrow_def printEthereumJSTrace_def printRethnetTrace_def
        trace_dump_def action_defs)

lemma dryRun_mismatch:
  "dryRun (ethereumJSAdapter this) tx b f w = (Inr (ra, ta), w1) \<Longrightarrow>
   dryRun (rethnetAdapter this) tx b f w1 = (Inr (rb, tb), w2) \<Longrightarrow>
   assertEqualRunTxResults ra rb w2 = (Inl e, w3) \<Longrightarrow>
   stringify json ta = Inr sa \<Longrightarrow> stringify_bigint_replacer json tb = Inr sb \<Longrightarrow>
     DualModeAdapter_dryRun json this tx b f w
       = (Inl e, w3\<lparr>console := console w3 @ trace_dump sa sb\<rparr>)"
  by (simp add: DualModeAdapter_dryRun_def bind_action_def print_traces_and_rethrow_ok)

lemma runTxInBlock_mismatch:
  "runTxInBlock (ethereumJSAdapter this) tx b w = (Inr (ra, ta), w1) \<Longrightarrow>
   runTxInBlock (rethnetAdapter this) tx b w1 = (Inr (rb, tb), w2) \<Longrightarrow>
   assertEqualRunTxResults ra rb w2 = (Inl e, w3) \<Longrightarrow>
   stringify json ta = Inr sa \<Longrightarrow> stringify_bigint_replacer json tb = Inr sb \<Longrightarrow>
     DualModeAdapter_runTxInBlock json this tx b w
       = (Inl e, w3\<lparr>console := console w3 @ trace_dump sa sb\<rparr>)"
  by (simp add: DualModeAdapter_runTxInBlock_def bind_action_def print_traces_and_rethrow_ok)

lemma getAccount_mismatch:
  "getAccount (ethereumJSAdapter this) a w = (Inr xa, w1) \<Longrightarrow>
   getAccount (rethnetAdapter this) a w1 = (Inr xb, w2) \<Longrightarrow>
   assertEqualAccounts xa xb w2 = (Inl e, w3) \<Longrightarrow>
     DualModeAdapter_getAccount this a w = (Inl e, w3)"
  by (simp add: DualModeAdapter_getAccount_def bind_action_def)

lemma getStateRoot_mismatch:
  "getStateRoot (ethereumJSAdapter this) w = (Inr ra, w1) \<Longrightarrow>
   getStateRoot (rethnetAdapter this) w1 = (Inr rb, w2) \<Longrightarrow> ra \<noteq> rb \<Longrightarrow>
     DualModeAdapter_getStateRoot this w
       = diverged ''state root'' (JString (toString_hex ra)) (JString (toString_hex rb)) w2"
  by (simp add: DualModeAdapter_getStateRoot_def diverged_def action_defs)

lemma getContractStorage_mismatch:
  "getContractStorage (ethereumJSAdapter this) a k w = (Inr sa, w1) \<Longrightarrow>
   getContractStorage (rethnetAdapter this) a k w1 = (Inr sb, w2) \<Longrightarrow> sa \<noteq> sb \<Longrightarrow>
     DualModeAdapter_getContractStorage this a k w
       = diverged ''storage slot'' (JBuffer sa) (JBuffer sb) w2"
  by (simp add: DualModeAdapter_getContractStorage_def diverged_def action_defs)

lemma getContractCode_mismatch:
  "getContractCode (ethereumJSAdapter this) a w = (Inr ca, w1) \<Longrightarrow>
   getContractCode (rethnetAdapter this) a w1 = (Inr cb, w2) \<Longrightarrow> ca \<noteq> cb \<Longrightarrow>
     DualModeAdapter_getContractCode this a w
       = diverged ''contract code'' (JBuffer ca) (JBuffer cb) w2"
  by (simp add: DualModeAdapter_getContractCode_def diverged_def action_defs)

section \<open>Write-replicate operations of the Dual Adapter\<close>

text \<open>
  The sibling writes of \<open>putContractCode\<close>: when one of them returns, the candidate's
  operation has run first and the reference's operation has run in the world it left.
\<close>

lemma sibling_writes_reach_both_backends:
  "(DualModeAdapter_putAccount this a x w = (Inr u, w') \<longrightarrow>
      (\<exists>w1. putAccount (rethnetAdapter this) a x w = (Inr (), w1) \<and>
            putAccount (ethereumJSAdapter this) a x w1 = (Inr (), w')))
   \<and> (DualModeAdapter_putContractStorage this a k v w = (Inr u, w') \<longrightarrow>
      (\<exists>w1. putContractStorage (rethnetAdapter this) a k v w = (Inr (), w1) \<and>
            putContractStorage (ethereumJSAdapter this) a k v w1 = (Inr (), w')))
   \<and> (DualModeAdapter_addBlockRewards this rewards w = (Inr u, w') \<longrightarrow>
      (\<exists>w1. addBlockRewards (rethnetAdapter this) rewards w = (Inr (), w1) \<and>
            addBlockRewards (ethereumJSAdapter this) rewards w1 = (Inr (), w')))
   \<and> (DualModeAdapter_sealBlock this w = (Inr u, w') \<longrightarrow>
      (\<exists>w1. sealBlock (rethnetAdapter this) w = (Inr (), w1) \<and>
            sealBlock (ethereumJSAdapter this) w1 = (Inr (), w')))
   \<and> (DualModeAdapter_revertBlock this w = (Inr u, w') \<longrightarrow>
      (\<exists>w1. revertBlock (rethnetAdapter this) w = (Inr (), w1) \<and>
            revertBlock (ethereumJSAdapter this) w1 = (Inr (), w')))"
  by (auto simp: DualModeAdapter_putAccount_def DualModeAdapter_putContractStorage_def
      DualModeAdapter_addBlockRewards_def DualModeAdapter_sealBlock_def
      DualModeAdapter_revertBlock_def bind_action_def split: prod.splits sum.splits)

lemma startBlock_returns:
  "DualModeAdapter_startBlock this w = (Inr u, w') \<Longrightarrow>
     \<exists>w1. startBlock (rethnetAdapter this) w = (Inr (), w1) \<and>
          startBlock (ethereumJSAdapter this) w1 = (Inr (), w')"
  by (auto simp: DualModeAdapter_startBlock_def bind_action_def split: prod.splits sum.splits)

lemma startBlock_candidate_fails:
  "startBlock (rethnetAdapter this) w = (Inl e, w1) \<Longrightarrow>
     DualModeAdapter_startBlock this w = (Inl e, w1)"
  by (simp add: DualModeAdapter_startBlock_def bind_action_def)

lemma candidate_startBlock_is_checkpoint:
  "(startBlock (RethnetAdapter_as_VMAdapter lib c) w = (Inr u, w1)) =
     (state_checkpoint (state c) w = (Inr (), w1))"
  by (auto simp: RethnetAdapter_as_VMAdapter_def RethnetAdapter_startBlock_def action_defs
      split: prod.splits sum.splits)

lemma restoreContext_returns:
  "DualModeAdapter_restoreContext this r w = (Inr u, w') \<Longrightarrow>
     \<exists>w1. restoreContext (ethereumJSAdapter this) r w = (Inr (), w1) \<and>
          restoreContext (rethnetAdapter this) r w1 = (Inr (), w')"
  by (auto simp: DualModeAdapter_restoreContext_def bind_action_def
      split: prod.splits sum.splits)

lemma lifecycle_failures:
  "(fst (DualModeAdapter_addBlockRewards this rewards w) = Inl e) =
     (fst (addBlockRewards (rethnetAdapter this) rewards w) = Inl e \<or>
      (fst (addBlockRewards (rethnetAdapter this) rewards w) = Inr () \<and>
       fst (addBlockRewards (ethereumJSAdapter this) rewards
              (snd (addBlockRewards (rethnetAdapter this) rewards w))) = Inl e))"
  "(fst (DualModeAdapter_startBlock this w) = Inl e) =
     (fst (startBlock (rethnetAdapter this) w) = Inl e \<or>
      (fst (startBlock (rethnetAdapter this) w) = Inr () \<and>
       fst (startBlock (ethereumJSAdapter this) (snd (startBlock (rethnetAdapter this) w)))
         = Inl e))"
  "(fst (RethnetAdapter_startBlock c w) = Inl e) = (fst (state_checkpoint (state c) w) = Inl e)"
  by (auto simp: DualModeAdapter_addBlockRewards_def DualModeAdapter_startBlock_def
      RethnetAdapter_startBlock_def action_defs split: prod.splits sum.splits)

section \<open>Runs on the in-memory backends\<close>

lemmas memory_adapters =
  memory_dual_def memory_reference_def memory_candidate_def RethnetAdapter_as_VMAdapter_def
  memory_candidate_object_def memory_state_def memory_engine_def memory_modules_def
  on_reference_def on_candidate_def

lemma memory_dryRun:
  "dryRun (ethereumJSAdapter memory_dual) () (example_block 1) None mismatched_world
     = (Inr (plain_result, ''reference trace''), mismatched_world)"
  "dryRun (rethnetAdapter memory_dual) () (example_block 1) None mismatched_world
     = (Inr (plain_result\<lparr>gasRefund := 1\<rparr>, ''candidate trace''), mismatched_world)"
  by (simp_all add: memory_adapters mismatched_world_def RethnetAdapter_dryRun_def
      getBlockEnvDifficulty_def action_defs example_block_def MAX_DIFFICULTY_def)

lemma memory_runTxInBlock:
  "runTxInBlock (ethereumJSAdapter memory_dual) () (example_block 1) mismatched_world
     = (Inr (plain_result, ''reference trace''), mismatched_world)"
  "runTxInBlock (rethnetAdapter memory_dual) () (example_block 1) mismatched_world
     = (Inr (plain_result\<lparr>gasRefund := 1\<rparr>, ''candidate trace''), mismatched_world)"
  by (simp_all add: memory_adapters mismatched_world_def RethnetAdapter_runTxInBlock_def
      getBlockEnvDifficulty_def action_defs example_block_def MAX_DIFFICULTY_def)

lemma memory_reads:
  "getAccount (ethereumJSAdapter memory_dual) (Address [1]) mismatched_world
     = (Inr (empty_account\<lparr>balance := 100\<rparr>), mismatched_world)"
  "getAccount (rethnetAdapter memory_dual) (Address [1]) mismatched_world
     = (Inr (empty_account\<lparr>balance := 99\<rparr>), mismatched_world)"
  "getStateRoot (ethereumJSAdapter memory_dual) mismatched_world
     = (Inr [170], mismatched_world)"
  "getStateRoot (rethnetAdapter memory_dual) mismatched_world = (Inr [187], mismatched_world)"
  "getContractStorage (ethereumJSAdapter memory_dual) (Address [1]) [0] mismatched_world
     = (Inr [1], mismatched_world)"
  "getContractStorage (rethnetAdapter memory_dual) (Address [1]) [0] mismatched_world
     = (Inr [2], mismatched_world)"
  "getContractCode (ethereumJSAdapter memory_dual) (Address [1]) mismatched_world
     = (Inr [96, 0], mismatched_world)"
  "getContractCode (rethnetAdapter memory_dual) (Address [1]) mismatched_world
     = (Inr [], mismatched_world)"
  by (simp_all add: memory_adapters mismatched_world_def RethnetAdapter_getAccount_def
      RethnetAdapter_getStateRoot_def RethnetAdapter_getContractStorage_def
      RethnetAdapter_getContractCode_def)

lemma memory_putContractCode:
  "DualModeAdapter_putContractCode memory_dual (Address [1]) [96] fresh_world
     = (Inr (), fresh_world\<lparr>reference_store :=
          empty_store\<lparr>st_code := (st_code empty_store)(Address [1] := [96])\<rparr>\<rparr>)"
  by (simp add: DualModeAdapter_putContractCode_def memory_dual_def memory_reference_def
        on_reference_def fresh_world_def)

lemma memory_startBlock:
  "DualModeAdapter_startBlock memory_dual w
     = (Inr (), w\<lparr>candidate_store := (candidate_store w)
                     \<lparr>st_checkpoints := Suc (st_checkpoints (candidate_store w))\<rparr>,
                  reference_store := (reference_store w)
                     \<lparr>st_checkpoints := Suc (st_checkpoints (reference_store w))\<rparr>\<rparr>)"
  by (simp add: DualModeAdapter_startBlock_def memory_adapters RethnetAdapter_startBlock_def
        bind_action_def return_action_def)

lemma memory_addBlockRewards:
  "DualModeAdapter_addBlockRewards memory_dual [(Address [1], 5)] w
     = (Inr (), w\<lparr>candidate_store := credit (Address [1], 5) (candidate_store w),
                  reference_store := credit (Address [1], 5) (reference_store w)\<rparr>)"
  by (simp add: DualModeAdapter_addBlockRewards_def memory_adapters
        RethnetAdapter_addBlockRewards_def bind_action_def return_action_def)

lemma memory_restoreContext:
  "DualModeAdapter_restoreContext memory_dual [170] fresh_world
     = (Inr (), fresh_world\<lparr>reference_store := empty_store\<lparr>st_root := [170]\<rparr>,
                            candidate_store := empty_store\<lparr>st_root := [170]\<rparr>\<rparr>)"
  by (simp add: DualModeAdapter_restoreContext_def memory_adapters
        RethnetAdapter_restoreContext_def bind_action_def fresh_world_def)

section \<open>The block environment of the candidate's \<open>dryRun\<close>\<close>




section \<open>Claims about the Dual Adapter and the candidate backend\<close>

text \<open>
  Claim C1. \<open>putContractCode\<close> of the Dual Adapter is the reference backend's
  \<open>putContractCode\<close> and nothing else: whatever the candidate adapter is, it is not
  called. On the in-memory backends, starting from two empty stores, writing the code
  \<open>[0x60]\<close> at address \<open>0x01\<close> returns normally, the reference store holds the code, the
  candidate store still holds none, and the next \<open>getContractCode\<close> of that address
  fails with "Different contract code".
\<close>

theorem putContractCode_reaches_reference_only:
  "DualModeAdapter_putContractCode \<lparr>ethereumJSAdapter = reference, rethnetAdapter = candidate\<rparr>
       a v w = putContractCode reference a v w
   \<and> fst (DualModeAdapter_putContractCode memory_dual (Address [1]) [96] fresh_world) = Inr ()
   \<and> st_code (reference_store
        (snd (DualModeAdapter_putContractCode memory_dual (Address [1]) [96] fresh_world)))
        (Address [1]) = [96]
   \<and> st_code (candidate_store
        (snd (DualModeAdapter_putContractCode memory_dual (Address [1]) [96] fresh_world)))
        (Address [1]) = []
   \<and> fst (DualModeAdapter_getContractCode memory_dual (Address [1])
        (snd (DualModeAdapter_putContractCode memory_dual (Address [1]) [96] fresh_world)))
       = Inl (Error ''Different contract code'')"
  by (simp add: memory_putContractCode)
     (simp add: DualModeAdapter_putContractCode_def DualModeAdapter_getContractCode_def
        memory_adapters RethnetAdapter_getContractCode_def fresh_world_def empty_store_def
        action_defs)

text \<open>
  Claim C2, as stated, fails: on backends that accept the calls, \<open>addBlockRewards\<close> in a
  session where no block was started returns normally, and so does a second
  \<open>startBlock\<close> right after the first.
\<close>

theorem lifecycle_order_unchecked_counterexample:
  "st_checkpoints (candidate_store fresh_world) = 0
   \<and> st_checkpoints (reference_store fresh_world) = 0
   \<and> fst (DualModeAdapter_addBlockRewards memory_dual [(Address [1], 5)] fresh_world) = Inr ()
   \<and> fst (DualModeAdapter_startBlock memory_dual
        (snd (DualModeAdapter_startBlock memory_dual fresh_world))) = Inr ()"
  by (simp add: memory_startBlock memory_addBlockRewards fresh_world_def empty_store_def)

text \<open>
  Claim C2, amended. \<open>addBlockRewards\<close> and \<open>startBlock\<close> of the Dual Adapter keep no
  record of the block lifecycle: each fails with an error exactly when the candidate's
  call fails with it, or the candidate's call returns and the reference's call then fails
  with it. The candidate adapter's \<open>startBlock\<close> fails exactly when the state manager's
  \<open>checkpoint\<close> does.
\<close>

theorem lifecycle_calls_fail_only_through_backends:
  "(fst (DualModeAdapter_addBlockRewards this rewards w) = Inl e) =
     (fst (addBlockRewards (rethnetAdapter this) rewards w) = Inl e \<or>
      (fst (addBlockRewards (rethnetAdapter this) rewards w) = Inr () \<and>
       fst (addBlockRewards (ethereumJSAdapter this) rewards
              (snd (addBlockRewards (rethnetAdapter this) rewards w))) = Inl e))
   \<and>
   (fst (DualModeAdapter_startBlock this w) = Inl e) =
     (fst (startBlock (rethnetAdapter this) w) = Inl e \<or>
      (fst (startBlock (rethnetAdapter this) w) = Inr () \<and>
       fst (startBlock (ethereumJSAdapter this) (snd (startBlock (rethnetAdapter this) w)))
         = Inl e))
   \<and>
   (fst (RethnetAdapter_startBlock c w) = Inl e) = (fst (state_checkpoint (state c) w) = Inl e)"
  using lifecycle_failures(1) [of this rewards w e] lifecycle_failures(2) [of this w e]
    lifecycle_failures(3) [of c w e]
  by blast

theorem lifecycle_calls_fail_only_through_backends_witness:
  "fst (DualModeAdapter_startBlock
          (memory_dual\<lparr>ethereumJSAdapter :=
             memory_reference\<lparr>startBlock := throw (Error ''a block is already started'')\<rparr>\<rparr>)
          fresh_world) = Inl (Error ''a block is already started'')"
  using lifecycle_calls_fail_only_through_backends
    [of "memory_dual\<lparr>ethereumJSAdapter :=
             memory_reference\<lparr>startBlock := throw (Error ''a block is already started'')\<rparr>\<rparr>"
      "[]" fresh_world "Error ''a block is already started''" memory_candidate_object]
  by (simp add: memory_adapters RethnetAdapter_startBlock_def action_defs)

text \<open>
  Claim C4, as stated, fails: when the two backends hold different balances for an
  address, \<open>getAccount\<close> throws \<open>Error("Different balance")\<close>, whose message has the field
  name only, and all that reaches the console is the one \<open>console.trace\<close> line with the
  two values. No execution trace is rendered.
\<close>

theorem read_mismatch_without_trace_dump_counterexample:
  "fst (DualModeAdapter_getAccount memory_dual (Address [1]) mismatched_world)
     = Inl (Error ''Different balance'')
   \<and> console mismatched_world = []
   \<and> console (snd (DualModeAdapter_getAccount memory_dual (Address [1]) mismatched_world))
     = [ConsoleTrace [JTemplate [JString ''Different balance: '', JBigInt 100,
          JString '' !== '', JBigInt 99]]]"
  by (simp add: DualModeAdapter_getAccount_def memory_adapters RethnetAdapter_getAccount_def
        mismatched_world_def empty_account_def assertEqualAccounts_def action_defs)

text \<open>
  Claim C4, amended. A comparison that finds a mismatch stops at the first field that
  differs, in the order of its checks; it writes one \<open>console.trace\<close> message that names
  that field and holds the two backends' values of it, the reference's first, and throws
  \<open>Error("Different <field>")\<close>. In \<open>dryRun\<close> and \<open>runTxInBlock\<close> the two traces are then
  printed (reference first) before that same error is rethrown, provided both traces
  serialise. In \<open>getAccount\<close> the comparator's error propagates as it is, and in
  \<open>getStateRoot\<close>, \<open>getContractStorage\<close> and \<open>getContractCode\<close> the mismatch is reported
  the same way: nothing else is printed, no trace is rendered.
\<close>

theorem divergence_is_reported:
  "(totalGasSpent a \<noteq> totalGasSpent b \<longrightarrow>
      assertEqualRunTxResults a b w
        = diverged ''totalGasSpent'' (JBigInt (totalGasSpent a)) (JBigInt (totalGasSpent b)) w)
   \<and>
   (totalGasSpent a = totalGasSpent b \<and> gasRefund a \<noteq> gasRefund b \<longrightarrow>
      assertEqualRunTxResults a b w
        = diverged ''gasRefund'' (JBigInt (gasRefund a)) (JBigInt (gasRefund b)) w)
   \<and>
   (totalGasSpent a = totalGasSpent b \<and> gasRefund a = gasRefund b \<and>
    createdAddress a \<noteq> createdAddress b \<longrightarrow>
      assertEqualRunTxResults a b w
        = diverged ''createdAddress''
            (optional_string (map_option Address_toString (createdAddress a)))
            (optional_string (map_option Address_toString (createdAddress b))) w)
   \<and>
   (totalGasSpent a = totalGasSpent b \<and> gasRefund a = gasRefund b \<and>
    createdAddress a = createdAddress b \<and>
    map_option error (exceptionError (execResult a))
      \<noteq> map_option error (exceptionError (execResult b)) \<longrightarrow>
      assertEqualRunTxResults a b w
        = diverged ''exceptionError.error''
            (optional_string (map_option error (exceptionError (execResult a))))
            (optional_string (map_option error (exceptionError (execResult b)))) w)
   \<and>
   (totalGasSpent a = totalGasSpent b \<and> gasRefund a = gasRefund b \<and>
    createdAddress a = createdAddress b \<and>
    map_option error (exceptionError (execResult a))
      = map_option error (exceptionError (execResult b)) \<and>
    map_option errorType (exceptionError (execResult a))
      \<noteq> map_option errorType (exceptionError (execResult b)) \<longrightarrow>
      assertEqualRunTxResults a b w
        = diverged ''exceptionError.errorType''
            (optional_string (map_option errorType (exceptionError (execResult a))))
            (optional_string (map_option errorType (exceptionError (execResult b)))) w)
   \<and>
   (totalGasSpent a = totalGasSpent b \<and> gasRefund a = gasRefund b \<and>
    createdAddress a = createdAddress b \<and>
    map_option error (exceptionError (execResult a))
      = map_option error (exceptionError (execResult b)) \<and>
    map_option errorType (exceptionError (execResult a))
      = map_option errorType (exceptionError (execResult b)) \<and>
    createdAddress a = None \<and>
    returnValue (execResult a) \<noteq> returnValue (execResult b) \<longrightarrow>
      assertEqualRunTxResults a b w
        = diverged ''returnValue'' (JString (toString_hex (returnValue (execResult a))))
            (JString (toString_hex (returnValue (execResult b)))) w)
   \<and>
   (balance p \<noteq> balance q \<longrightarrow>
      assertEqualAccounts p q w
        = diverged ''balance'' (JBigInt (balance p)) (JBigInt (balance q)) w)
   \<and>
   (balance p = balance q \<and> codeHash p \<noteq> codeHash q \<longrightarrow>
      assertEqualAccounts p q w
        = diverged ''codeHash'' (JBuffer (codeHash p)) (JBuffer (codeHash q)) w)
   \<and>
   (balance p = balance q \<and> codeHash p = codeHash q \<and> nonce p \<noteq> nonce q \<longrightarrow>
      assertEqualAccounts p q w
        = diverged ''nonce'' (JBigInt (nonce p)) (JBigInt (nonce q)) w)
   \<and>
   (dryRun (ethereumJSAdapter this) tx blk f v = (Inr (ra, ta), w1) \<and>
    dryRun (rethnetAdapter this) tx blk f w1 = (Inr (rb, tb), w2) \<and>
    assertEqualRunTxResults ra rb w2 = (Inl e, w3) \<and>
    stringify json ta = Inr sa \<and> stringify_bigint_replacer json tb = Inr sb \<longrightarrow>
      DualModeAdapter_dryRun json this tx blk f v
        = (Inl e, w3\<lparr>console := console w3 @ trace_dump sa sb\<rparr>))
   \<and>
   (runTxInBlock (ethereumJSAdapter this) tx blk v = (Inr (ra', ta'), w1') \<and>
    runTxInBlock (rethnetAdapter this) tx blk w1' = (Inr (rb', tb'), w2') \<and>
    assertEqualRunTxResults ra' rb' w2' = (Inl e', w3') \<and>
    stringify json ta' = Inr sa' \<and> stringify_bigint_replacer json tb' = Inr sb' \<longrightarrow>
      DualModeAdapter_runTxInBlock json this tx blk v
        = (Inl e', w3'\<lparr>console := console w3' @ trace_dump sa' sb'\<rparr>))
   \<and>
   (getAccount (ethereumJSAdapter this) addr v = (Inr xa, v1) \<and>
    getAccount (rethnetAdapter this) addr v1 = (Inr xb, v2) \<and>
    assertEqualAccounts xa xb v2 = (Inl e'', v2') \<longrightarrow>
      DualModeAdapter_getAccount this addr v = (Inl e'', v2'))
   \<and>
   (getStateRoot (ethereumJSAdapter this) v = (Inr root_a, v3) \<and>
    getStateRoot (rethnetAdapter this) v3 = (Inr root_b, v4) \<and> root_a \<noteq> root_b \<longrightarrow>
      DualModeAdapter_getStateRoot this v
        = diverged ''state root'' (JString (toString_hex root_a))
            (JString (toString_hex root_b)) v4)
   \<and>
   (getContractStorage (ethereumJSAdapter this) addr k v = (Inr slot_a, v5) \<and>
    getContractStorage (rethnetAdapter this) addr k v5 = (Inr slot_b, v6) \<and>
    slot_a \<noteq> slot_b \<longrightarrow>
      DualModeAdapter_getContractStorage this addr k v
        = diverged ''storage slot'' (JBuffer slot_a) (JBuffer slot_b) v6)
   \<and>
   (getContractCode (ethereumJSAdapter this) addr v = (Inr code_a, v7) \<and>
    getContractCode (rethnetAdapter this) addr v7 = (Inr code_b, v8) \<and> code_a \<noteq> code_b \<longrightarrow>
      DualModeAdapter_getContractCode this addr v
        = diverged ''contract code'' (JBuffer code_a) (JBuffer code_b) v8)"
  apply (intro conjI impI)
  subgoal using run_tx_report(1) [of a b w] by blast
  subgoal using run_tx_report(2) [of a b w] by blast
  subgoal using run_tx_report(3) [of a b w] by blast
  subgoal using run_tx_report(4) [of a b w] by blast
  subgoal using run_tx_report(5) [of a b w] by blast
  subgoal using run_tx_report(6) [of a b w] by blast
  subgoal using account_report(1) [of p q w] by blast
  subgoal using account_report(2) [of p q w] by blast
  subgoal using account_report(3) [of p q w] by blast
  subgoal using dryRun_mismatch [of this tx blk f v ra ta w1 rb tb w2 e w3 json sa sb]
    by blast
  subgoal
    using runTxInBlock_mismatch [of this tx blk v ra' ta' w1' rb' tb' w2' e' w3' json sa' sb']
    by blast
  subgoal using getAccount_mismatch [of this addr v xa v1 xb v2 e'' v2'] by blast
  subgoal using getStateRoot_mismatch [of this v root_a v3 root_b v4] by blast
  subgoal using getContractStorage_mismatch [of this addr k v slot_a v5 slot_b v6] by blast
  subgoal using getContractCode_mismatch [of this addr v code_a v7 code_b v8] by blast
  done

theorem divergence_is_reported_witness:
  "assertEqualRunTxResults plain_result (plain_result\<lparr>totalGasSpent := 1\<rparr>) fresh_world
     = diverged ''totalGasSpent'' (JBigInt 21000) (JBigInt 1) fresh_world
   \<and> assertEqualRunTxResults plain_result (plain_result\<lparr>gasRefund := 1\<rparr>) fresh_world
     = diverged ''gasRefund'' (JBigInt 0) (JBigInt 1) fresh_world
   \<and> assertEqualRunTxResults plain_result
        (plain_result\<lparr>createdAddress := Some (Address [222, 173])\<rparr>) fresh_world
     = diverged ''createdAddress'' JUndefined (JString ''0xdead'') fresh_world
   \<and> assertEqualRunTxResults plain_result (failed_result ''revert'' ''EvmError'') fresh_world
     = diverged ''exceptionError.error'' JUndefined (JString ''revert'') fresh_world
   \<and> assertEqualRunTxResults (failed_result ''revert'' ''EvmError'')
        (failed_result ''revert'' ''Other'') fresh_world
     = diverged ''exceptionError.errorType'' (JString ''EvmError'') (JString ''Other'')
         fresh_world
   \<and> assertEqualRunTxResults plain_result
        (plain_result\<lparr>execResult := \<lparr>exceptionError = None, returnValue = [1]\<rparr>\<rparr>) fresh_world
     = diverged ''returnValue'' (JString []) (JString ''01'') fresh_world
   \<and> assertEqualAccounts (empty_account\<lparr>balance := 100\<rparr>) (empty_account\<lparr>balance := 99\<rparr>)
        fresh_world
     = diverged ''balance'' (JBigInt 100) (JBigInt 99) fresh_world
   \<and> assertEqualAccounts (empty_account\<lparr>codeHash := [1]\<rparr>) (empty_account\<lparr>codeHash := [2]\<rparr>)
        fresh_world
     = diverged ''codeHash'' (JBuffer [1]) (JBuffer [2]) fresh_world
   \<and> assertEqualAccounts empty_account (empty_account\<lparr>nonce := 1\<rparr>) fresh_world
     = diverged ''nonce'' (JBigInt 0) (JBigInt 1) fresh_world
   \<and> DualModeAdapter_dryRun memory_JSON memory_dual () (example_block 1) None mismatched_world
     = (Inl (Error ''Different gasRefund''),
        mismatched_world\<lparr>console :=
          [ConsoleTrace [JTemplate [JString ''Different gasRefund: '', JBigInt 0,
             JString '' !== '', JBigInt 1]],
           ConsoleLog [JString ''EthereumJS trace''],
           ConsoleLog [JString (json_quote ''reference trace'')],
           ConsoleLog [],
           ConsoleLog [JString ''Rethnet trace''],
           ConsoleLog [JString (json_quote ''candidate trace'')]]\<rparr>)
   \<and> DualModeAdapter_runTxInBlock memory_JSON memory_dual () (example_block 1) mismatched_world
     = (Inl (Error ''Different gasRefund''),
        mismatched_world\<lparr>console :=
          [ConsoleTrace [JTemplate [JString ''Different gasRefund: '', JBigInt 0,
             JString '' !== '', JBigInt 1]],
           ConsoleLog [JString ''EthereumJS trace''],
           ConsoleLog [JString (json_quote ''reference trace'')],
           ConsoleLog [],
           ConsoleLog [JString ''Rethnet trace''],
           ConsoleLog [JString (json_quote ''candidate trace'')]]\<rparr>)
   \<and> DualModeAdapter_getAccount memory_dual (Address [1]) mismatched_world
     = diverged ''balance'' (JBigInt 100) (JBigInt 99) mismatched_world
   \<and> DualModeAdapter_getStateRoot memory_dual mismatched_world
     = diverged ''state root'' (JString ''aa'') (JString ''bb'') mismatched_world
   \<and> DualModeAdapter_getContractStorage memory_dual (Address [1]) [0] mismatched_world
     = diverged ''storage slot'' (JBuffer [1]) (JBuffer [2]) mismatched_world
   \<and> DualModeAdapter_getContractCode memory_dual (Address [1]) mismatched_world
     = diverged ''contract code'' (JBuffer [96, 0]) (JBuffer []) mismatched_world"
proof -
  note T = divergence_is_reported
  have hex: "toString_hex [222, 173] = ''dead''" "toString_hex [1] = ''01''"
    "toString_hex [] = []"
    by (simp_all add: toString_hex_def byte_hex_def hex_digit_def)
  have c1: "assertEqualRunTxResults plain_result (plain_result\<lparr>totalGasSpent := 1\<rparr>)
      fresh_world = diverged ''totalGasSpent'' (JBigInt 21000) (JBigInt 1) fresh_world"
    using T [where a = plain_result and b = "plain_result\<lparr>totalGasSpent := 1\<rparr>"
        and w = fresh_world,
        THEN conjunct1, THEN mp]
    by (simp add: plain_result_def)
  have c2: "assertEqualRunTxResults plain_result (plain_result\<lparr>gasRefund := 1\<rparr>) fresh_world
      = diverged ''gasRefund'' (JBigInt 0) (JBigInt 1) fresh_world"
    using T [where a = plain_result and b = "plain_result\<lparr>gasRefund := 1\<rparr>"
        and w = fresh_world,
        THEN conjunct2, THEN conjunct1, THEN mp]
    by (simp add: plain_result_def)
  have c3: "assertEqualRunTxResults plain_result
        (plain_result\<lparr>createdAddress := Some (Address [222, 173])\<rparr>) fresh_world
      = diverged ''createdAddress'' JUndefined (JString ''0xdead'') fresh_world"
    using T [where a = plain_result
        and b = "plain_result\<lparr>createdAddress := Some (Address [222, 173])\<rparr>"
        and w = fresh_world,
        THEN conjunct2, THEN conjunct2, THEN conjunct1, THEN mp]
    by (simp add: plain_result_def optional_string_def Address_toString_def hex)
  have c4: "assertEqualRunTxResults plain_result (failed_result ''revert'' ''EvmError'')
        fresh_world
      = diverged ''exceptionError.error'' JUndefined (JString ''revert'') fresh_world"
    using T [where a = plain_result and b = "failed_result ''revert'' ''EvmError''"
        and w = fresh_world,
        THEN conjunct2, THEN conjunct2, THEN conjunct2, THEN conjunct1, THEN mp]
    by (simp add: plain_result_def failed_result_def optional_string_def)
  have c5: "assertEqualRunTxResults (failed_result ''revert'' ''EvmError'')
        (failed_result ''revert'' ''Other'') fresh_world
      = diverged ''exceptionError.errorType'' (JString ''EvmError'') (JString ''Other'')
          fresh_world"
    using T [where a = "failed_result ''revert'' ''EvmError''"
        and b = "failed_result ''revert'' ''Other''" and w = fresh_world,
        THEN conjunct2, THEN conjunct2, THEN conjunct2, THEN conjunct2, THEN conjunct1, THEN mp]
    by (simp add: failed_result_def optional_string_def)
  have c6: "assertEqualRunTxResults plain_result
        (plain_result\<lparr>execResult := \<lparr>exceptionError = None, returnValue = [1]\<rparr>\<rparr>) fresh_world
      = diverged ''returnValue'' (JString []) (JString ''01'') fresh_world"
    using T [where a = plain_result
        and b = "plain_result\<lparr>execResult := \<lparr>exceptionError = None, returnValue = [1]\<rparr>\<rparr>"
        and w = fresh_world,
        THEN conjunct2, THEN conjunct2, THEN conjunct2, THEN conjunct2, THEN conjunct2,
        THEN conjunct1, THEN mp]
    by (simp add: plain_result_def hex)
  have a1: "assertEqualAccounts (empty_account\<lparr>balance := 100\<rparr>)
        (empty_account\<lparr>balance := 99\<rparr>) fresh_world
      = diverged ''balance'' (JBigInt 100) (JBigInt 99) fresh_world"
    using T [where p = "empty_account\<lparr>balance := 100\<rparr>"
        and q = "empty_account\<lparr>balance := 99\<rparr>" and w = fresh_world,
        THEN conjunct2, THEN conjunct2, THEN conjunct2, THEN conjunct2, THEN conjunct2,
        THEN conjunct2, THEN conjunct1, THEN mp]
    by simp
  have a2: "assertEqualAccounts (empty_account\<lparr>codeHash := [1]\<rparr>)
        (empty_account\<lparr>codeHash := [2]\<rparr>) fresh_world
      = diverged ''codeHash'' (JBuffer [1]) (JBuffer [2]) fresh_world"
    using T [where p = "empty_account\<lparr>codeHash := [1]\<rparr>"
        and q = "empty_account\<lparr>codeHash := [2]\<rparr>" and w = fresh_world,
        THEN conjunct2, THEN conjunct2, THEN conjunct2, THEN conjunct2, THEN conjunct2,
        THEN conjunct2, THEN conjunct2, THEN conjunct1, THEN mp]
    by simp
  have a3: "assertEqualAccounts empty_account (empty_account\<lparr>nonce := 1\<rparr>) fresh_world
      = diverged ''nonce'' (JBigInt 0) (JBigInt 1) fresh_world"
    using T [where p = empty_account and q = "empty_account\<lparr>nonce := 1\<rparr>"
        and w = fresh_world,
        THEN conjunct2, THEN conjunct2, THEN conjunct2, THEN conjunct2, THEN conjunct2,
        THEN conjunct2, THEN conjunct2, THEN conjunct2, THEN conjunct1, THEN mp]
    by (simp add: empty_account_def)
  have cmp: "assertEqualRunTxResults plain_result (plain_result\<lparr>gasRefund := 1\<rparr>)
       mismatched_world
     = (Inl (Error ''Different gasRefund''),
        mismatched_world\<lparr>console :=
          [ConsoleTrace [JTemplate [JString ''Different gasRefund: '', JBigInt 0,
             JString '' !== '', JBigInt 1]]]\<rparr>)"
    using T [where a = plain_result and b = "plain_result\<lparr>gasRefund := 1\<rparr>"
        and w = mismatched_world,
        THEN conjunct2, THEN conjunct1, THEN mp]
    by (simp add: plain_result_def diverged_def mismatched_world_def)
  have acmp: "assertEqualAccounts (empty_account\<lparr>balance := 100\<rparr>)
        (empty_account\<lparr>balance := 99\<rparr>) mismatched_world
      = (Inl (Error ''Different balance''),
         snd (diverged ''balance'' (JBigInt 100) (JBigInt 99) mismatched_world
               :: (js_error + unit) \<times> example_world))"
    using T [where p = "empty_account\<lparr>balance := 100\<rparr>"
        and q = "empty_account\<lparr>balance := 99\<rparr>" and w = mismatched_world,
        THEN conjunct2, THEN conjunct2, THEN conjunct2, THEN conjunct2, THEN conjunct2,
        THEN conjunct2, THEN conjunct1, THEN mp]
    by (simp add: diverged_def)
  have js: "stringify memory_JSON ''reference trace'' = Inr (json_quote ''reference trace'')"
    "stringify_bigint_replacer memory_JSON ''candidate trace''
       = Inr (json_quote ''candidate trace'')"
    by (simp_all add: memory_JSON_def)
  have d1: "DualModeAdapter_dryRun memory_JSON memory_dual () (example_block 1) None
        mismatched_world
     = (Inl (Error ''Different gasRefund''),
        mismatched_world\<lparr>console :=
          [ConsoleTrace [JTemplate [JString ''Different gasRefund: '', JBigInt 0,
             JString '' !== '', JBigInt 1]],
           ConsoleLog [JString ''EthereumJS trace''],
           ConsoleLog [JString (json_quote ''reference trace'')],
           ConsoleLog [],
           ConsoleLog [JString ''Rethnet trace''],
           ConsoleLog [JString (json_quote ''candidate trace'')]]\<rparr>)"
    using T [where this = memory_dual and tx = "()" and blk = "example_block 1"
        and f = None and json = memory_JSON and v = mismatched_world
        and ra = plain_result and ta = "''reference trace''" and ?w1.0 = mismatched_world
        and rb = "plain_result\<lparr>gasRefund := 1\<rparr>" and tb = "''candidate trace''"
        and ?w2.0 = mismatched_world and e = "Error ''Different gasRefund''"
        and ?w3.0 = "mismatched_world\<lparr>console :=
          [ConsoleTrace [JTemplate [JString ''Different gasRefund: '', JBigInt 0,
             JString '' !== '', JBigInt 1]]]\<rparr>"
        and sa = "json_quote ''reference trace''" and sb = "json_quote ''candidate trace''",
        THEN conjunct2, THEN conjunct2, THEN conjunct2, THEN conjunct2, THEN conjunct2,
        THEN conjunct2, THEN conjunct2, THEN conjunct2, THEN conjunct2, THEN conjunct1, THEN mp]
      memory_dryRun cmp js
    by (simp add: trace_dump_def)
  have d2: "DualModeAdapter_runTxInBlock memory_JSON memory_dual () (example_block 1)
        mismatched_world
     = (Inl (Error ''Different gasRefund''),
        mismatched_world\<lparr>console :=
          [ConsoleTrace [JTemplate [JString ''Different gasRefund: '', JBigInt 0,
             JString '' !== '', JBigInt 1]],
           ConsoleLog [JString ''EthereumJS trace''],
           ConsoleLog [JString (json_quote ''reference trace'')],
           ConsoleLog [],
           ConsoleLog [JString ''Rethnet trace''],
           ConsoleLog [JString (json_quote ''candidate trace'')]]\<rparr>)"
    using T [where this = memory_dual and tx = "()" and blk = "example_block 1"
        and json = memory_JSON and v = mismatched_world
        and ra' = plain_result and ta' = "''reference trace''" and w1' = mismatched_world
        and rb' = "plain_result\<lparr>gasRefund := 1\<rparr>" and tb' = "''candidate trace''"
        and w2' = mismatched_world and e' = "Error ''Different gasRefund''"
        and w3' = "mismatched_world\<lparr>console :=
          [ConsoleTrace [JTemplate [JString ''Different gasRefund: '', JBigInt 0,
             JString '' !== '', JBigInt 1]]]\<rparr>"
        and sa' = "json_quote ''reference trace''" and sb' = "json_quote ''candidate trace''",
        THEN conjunct2, THEN conjunct2, THEN conjunct2, THEN conjunct2, THEN conjunct2,
        THEN conjunct2, THEN conjunct2, THEN conjunct2, THEN conjunct2, THEN conjunct2,
        THEN conjunct1, THEN mp]
      memory_runTxInBlock cmp js
    by (simp add: trace_dump_def)
  have d3: "DualModeAdapter_getAccount memory_dual (Address [1]) mismatched_world
     = diverged ''balance'' (JBigInt 100) (JBigInt 99) mismatched_world"
    using T [where this = memory_dual and addr = "Address [1]" and v = mismatched_world
        and xa = "empty_account\<lparr>balance := 100\<rparr>" and ?v1.0 = mismatched_world
        and xb = "empty_account\<lparr>balance := 99\<rparr>" and ?v2.0 = mismatched_world
        and e'' = "Error ''Different balance''"
        and v2' = "snd (diverged ''balance'' (JBigInt 100) (JBigInt 99) mismatched_world
               :: (js_error + unit) \<times> example_world)",
        THEN conjunct2, THEN conjunct2, THEN conjunct2, THEN conjunct2, THEN conjunct2,
        THEN conjunct2, THEN conjunct2, THEN conjunct2, THEN conjunct2, THEN conjunct2,
        THEN conjunct2, THEN conjunct1, THEN mp]
      memory_reads(1,2) acmp
    by (simp add: diverged_def)
  have d4: "DualModeAdapter_getStateRoot memory_dual mismatched_world
     = diverged ''state root'' (JString ''aa'') (JString ''bb'') mismatched_world"
    using T [where this = memory_dual and v = mismatched_world
        and ?v3.0 = mismatched_world and ?v4.0 = mismatched_world
        and root_a = "[170]" and root_b = "[187]",
        THEN conjunct2, THEN conjunct2, THEN conjunct2, THEN conjunct2, THEN conjunct2,
        THEN conjunct2, THEN conjunct2, THEN conjunct2, THEN conjunct2, THEN conjunct2,
        THEN conjunct2, THEN conjunct2, THEN conjunct1, THEN mp]
      memory_reads(3,4) toString_hex_examples
    by simp
  have d5: "DualModeAdapter_getContractStorage memory_dual (Address [1]) [0] mismatched_world
     = diverged ''storage slot'' (JBuffer [1]) (JBuffer [2]) mismatched_world"
    using T [where this = memory_dual and addr = "Address [1]" and k = "[0]"
        and v = mismatched_world and ?v5.0 = mismatched_world and ?v6.0 = mismatched_world
        and slot_a = "[1]" and slot_b = "[2]",
        THEN conjunct2, THEN conjunct2, THEN conjunct2, THEN conjunct2, THEN conjunct2,
        THEN conjunct2, THEN conjunct2, THEN conjunct2, THEN conjunct2, THEN conjunct2,
        THEN conjunct2, THEN conjunct2, THEN conjunct2, THEN conjunct1, THEN mp]
      memory_reads(5,6)
    by simp
  have d6: "DualModeAdapter_getContractCode memory_dual (Address [1]) mismatched_world
     = diverged ''contract code'' (JBuffer [96, 0]) (JBuffer []) mismatched_world"
    using T [where this = memory_dual and addr = "Address [1]"
        and v = mismatched_world and ?v7.0 = mismatched_world and ?v8.0 = mismatched_world
        and code_a = "[96, 0]" and code_b = "[]",
        THEN conjunct2, THEN conjunct2, THEN conjunct2, THEN conjunct2, THEN conjunct2,
        THEN conjunct2, THEN conjunct2, THEN conjunct2, THEN conjunct2, THEN conjunct2,
        THEN conjunct2, THEN conjunct2, THEN conjunct2, THEN conjunct2, THEN mp]
      memory_reads(7,8)
    by simp
  from c1 c2 c3 c4 c5 c6 a1 a2 a3 d1 d2 d3 d4 d5 d6 show ?thesis by blast
qed



text \<open>
  The operations of the interface that the candidate adapter does implement: on the
  in-memory state each of them returns normally. \<open>restoreContext\<close> is one of them, and
  the Dual Adapter applies it to both backends (lemmas \<open>restoreContext_returns\<close> and
  \<open>memory_restoreContext\<close>).
\<close>

lemma candidate_implements_the_other_operations:
  "fst (dryRun memory_candidate () (example_block 1) None fresh_world)
     = Inr (plain_result, ''candidate trace'')"
  "fst (runTxInBlock memory_candidate () (example_block 1) fresh_world)
     = Inr (plain_result, ''candidate trace'')"
  "fst (getStateRoot memory_candidate fresh_world) = Inr []"
  "fst (getAccount memory_candidate (Address [1]) fresh_world) = Inr empty_account"
  "fst (getContractStorage memory_candidate (Address [1]) [0] fresh_world) = Inr []"
  "fst (getContractCode memory_candidate (Address [1]) fresh_world) = Inr []"
  "fst (putAccount memory_candidate (Address [1]) empty_account fresh_world) = Inr ()"
  "fst (putContractCode memory_candidate (Address [1]) [96] fresh_world) = Inr ()"
  "fst (putContractStorage memory_candidate (Address [1]) [0] [1] fresh_world) = Inr ()"
  "fst (restoreContext memory_candidate [170] fresh_world) = Inr ()"
  "fst (startBlock memory_candidate fresh_world) = Inr ()"
  "fst (addBlockRewards memory_candidate [(Address [1], 5)] fresh_world) = Inr ()"
  "fst (sealBlock memory_candidate fresh_world) = Inr ()"
  "fst (revertBlock memory_candidate fresh_world) = Inr ()"
  by (simp_all add: memory_candidate_def RethnetAdapter_as_VMAdapter_def
      memory_candidate_object_def memory_state_def memory_engine_def memory_modules_def
      on_candidate_def RethnetAdapter_dryRun_def RethnetAdapter_runTxInBlock_def
      getBlockEnvDifficulty_def MAX_DIFFICULTY_def example_block_def
      RethnetAdapter_getStateRoot_def RethnetAdapter_getAccount_def
      RethnetAdapter_getContractStorage_def RethnetAdapter_getContractCode_def
      RethnetAdapter_putAccount_def RethnetAdapter_putContractCode_def
      RethnetAdapter_putContractStorage_def RethnetAdapter_restoreContext_def
      RethnetAdapter_startBlock_def RethnetAdapter_addBlockRewards_def
      RethnetAdapter_sealBlock_def RethnetAdapter_revertBlock_def
      action_defs fresh_world_def empty_store_def)

text \<open>
  Claim C7. The operations that the candidate adapter does not support are
  \<open>traceTransaction\<close>, \<open>enableTracing\<close>, \<open>disableTracing\<close> and \<open>setBlockContext\<close>: each
  throws "not implemented" there, whatever its arguments and the world. In the Dual
  Adapter each of the four is the reference backend's operation and nothing else: the
  candidate adapter is not called, nothing is compared, and the outcome is the
  reference's whatever the candidate adapter is, so no error is raised for the
  candidate's lack of the operation.
\<close>

theorem reference_only_operations:
  "RethnetAdapter_traceTransaction c h b cfg w = (Inl (Error ''not implemented''), w)
   \<and> RethnetAdapter_enableTracing c cb w = (Inl (Error ''not implemented''), w)
   \<and> RethnetAdapter_disableTracing c w = (Inl (Error ''not implemented''), w)
   \<and> RethnetAdapter_setBlockContext c b r w = (Inl (Error ''not implemented''), w)
   \<and> DualModeAdapter_traceTransaction
        \<lparr>ethereumJSAdapter = reference, rethnetAdapter = candidate\<rparr> h b cfg w
       = traceTransaction reference h b cfg w
   \<and> DualModeAdapter_enableTracing
        \<lparr>ethereumJSAdapter = reference, rethnetAdapter = candidate\<rparr> cb w
       = enableTracing reference cb w
   \<and> DualModeAdapter_disableTracing
        \<lparr>ethereumJSAdapter = reference, rethnetAdapter = candidate\<rparr> w
       = disableTracing reference w
   \<and> DualModeAdapter_setBlockContext
        \<lparr>ethereumJSAdapter = reference, rethnetAdapter = candidate\<rparr> b r w
       = setBlockContext reference b r w"
  by (simp add: RethnetAdapter_traceTransaction_def RethnetAdapter_enableTracing_def
      RethnetAdapter_disableTracing_def RethnetAdapter_setBlockContext_def throw_def
      DualModeAdapter_traceTransaction_def DualModeAdapter_enableTracing_def
      DualModeAdapter_disableTracing_def DualModeAdapter_setBlockContext_def)

theorem reference_only_operations_witness:
  "setBlockContext memory_candidate (example_block 1) None fresh_world
     = (Inl (Error ''not implemented''), fresh_world)
   \<and> DualModeAdapter_setBlockContext memory_dual (example_block 1) None fresh_world
     = (Inr (), fresh_world)
   \<and> disableTracing memory_candidate fresh_world
     = (Inl (Error ''not implemented''), fresh_world)
   \<and> DualModeAdapter_disableTracing memory_dual fresh_world = (Inr (), fresh_world)"
  using reference_only_operations
    [where c = memory_candidate_object and b = "example_block 1" and r = None
      and w = fresh_world and reference = memory_reference and candidate = memory_candidate]
  by (simp add: memory_dual_def memory_candidate_def RethnetAdapter_as_VMAdapter_def
        memory_reference_def return_action_def)

text \<open>
  Claim C8. When \<open>startBlock\<close> of the Dual Adapter returns, the candidate's \<open>startBlock\<close>
  has run first, from the world of the call, and the reference's \<open>startBlock\<close> has run
  second, from the world the candidate left; the Dual Adapter returns the world the
  reference left. When the candidate's call fails, the Dual Adapter fails with its error
  in the world it left (the reference is not started). The candidate's \<open>startBlock\<close>
  returns exactly when the state manager's \<open>checkpoint\<close> does, with the same world.
\<close>

theorem startBlock_candidate_first:
  "(DualModeAdapter_startBlock this w = (Inr u, w') \<longrightarrow>
      (\<exists>w1. startBlock (rethnetAdapter this) w = (Inr (), w1) \<and>
            startBlock (ethereumJSAdapter this) w1 = (Inr (), w')))
   \<and> (startBlock (rethnetAdapter this) w = (Inl e, w2) \<longrightarrow>
        DualModeAdapter_startBlock this w = (Inl e, w2))
   \<and> (startBlock (RethnetAdapter_as_VMAdapter lib c) w = (Inr u, w3)) =
        (state_checkpoint (state c) w = (Inr (), w3))"
  using startBlock_returns [of this w u w'] startBlock_candidate_fails [of this w e w2]
    candidate_startBlock_is_checkpoint [of lib c w u w3]
  by blast

theorem startBlock_candidate_first_witness:
  "DualModeAdapter_startBlock memory_dual fresh_world
     = (Inr (), fresh_world\<lparr>candidate_store := empty_store\<lparr>st_checkpoints := 1\<rparr>,
                            reference_store := empty_store\<lparr>st_checkpoints := 1\<rparr>\<rparr>)
   \<and> (\<exists>w1. startBlock (rethnetAdapter memory_dual) fresh_world = (Inr (), w1) \<and>
         startBlock (ethereumJSAdapter memory_dual) w1
           = (Inr (), fresh_world\<lparr>candidate_store := empty_store\<lparr>st_checkpoints := 1\<rparr>,
                                  reference_store := empty_store\<lparr>st_checkpoints := 1\<rparr>\<rparr>))"
proof -
  have run: "DualModeAdapter_startBlock memory_dual fresh_world
     = (Inr (), fresh_world\<lparr>candidate_store := empty_store\<lparr>st_checkpoints := 1\<rparr>,
                            reference_store := empty_store\<lparr>st_checkpoints := 1\<rparr>\<rparr>)"
    by (simp add: memory_startBlock) (simp add: fresh_world_def empty_store_def)
  with startBlock_candidate_first [where this = memory_dual and w = fresh_world and u = "()"
      and w' = "fresh_world\<lparr>candidate_store := empty_store\<lparr>st_checkpoints := 1\<rparr>,
                            reference_store := empty_store\<lparr>st_checkpoints := 1\<rparr>\<rparr>"]
  show ?thesis by blast
qed

text \<open>
  Claim C10. The candidate's \<open>addBlockRewards\<close> asks the block builder for a block on
  one header, a constant in which every buffer holds zero bytes only (\<open>extraData\<close> holds
  none) and every number is 0, and finalizes that block with the rewards list, each
  address given by its bytes. What it does is what the builder does there: a refusal of
  the builder is its failure, a failure of \<open>finalize\<close> is its failure, and otherwise it
  returns in the world that \<open>finalize\<close> left. The builder is asked about no other header:
  two libraries whose \<open>BlockBuilder.new\<close> agree on that one header, and whose \<open>finalize\<close>
  is the same, give the same \<open>addBlockRewards\<close> for every rewards list and prior world.
\<close>

theorem addBlockRewards_dummy_header:
  "all_zero (hdr_parentHash dummy_header) \<and> all_zero (hdr_ommersHash dummy_header) \<and>
   all_zero (hdr_beneficiary dummy_header) \<and> all_zero (hdr_stateRoot dummy_header) \<and>
   all_zero (hdr_transactionsRoot dummy_header) \<and> all_zero (hdr_receiptsRoot dummy_header) \<and>
   all_zero (hdr_logsBloom dummy_header) \<and> all_zero (hdr_mixHash dummy_header) \<and>
   hdr_extraData dummy_header = [] \<and>
   hdr_difficulty dummy_header = 0 \<and> hdr_number dummy_header = 0 \<and>
   hdr_gasLimit dummy_header = 0 \<and> hdr_gasUsed dummy_header = 0 \<and>
   hdr_timestamp dummy_header = 0 \<and> hdr_nonce dummy_header = 0
   \<and>
   ((\<forall>inner c1 c2 v. BlockBuilder_new lib1 inner c1 dummy_header c2 v
                      = BlockBuilder_new lib2 inner c1 dummy_header c2 v) \<and>
    BlockBuilder_finalize lib1 = BlockBuilder_finalize lib2 \<longrightarrow>
      RethnetAdapter_addBlockRewards lib1 this rewards w
        = RethnetAdapter_addBlockRewards lib2 this rewards w)
   \<and>
   (BlockBuilder_new lib (state_asInner (state this)) EmptyObject dummy_header EmptyObject w
      = (Inl e, w1) \<longrightarrow>
      RethnetAdapter_addBlockRewards lib this rewards w = (Inl e, w1))
   \<and>
   (BlockBuilder_new lib (state_asInner (state this)) EmptyObject dummy_header EmptyObject w
      = (Inr blockBuilder, w2) \<and>
    BlockBuilder_finalize lib blockBuilder
        (map (\<lambda>(address, reward). (buf address, reward)) rewards) w2 = (Inl e', w3) \<longrightarrow>
      RethnetAdapter_addBlockRewards lib this rewards w = (Inl e', w3))
   \<and>
   (BlockBuilder_new lib (state_asInner (state this)) EmptyObject dummy_header EmptyObject w
      = (Inr blockBuilder', w4) \<and>
    BlockBuilder_finalize lib blockBuilder'
        (map (\<lambda>(address, reward). (buf address, reward)) rewards) w4 = (Inr u, w5) \<longrightarrow>
      RethnetAdapter_addBlockRewards lib this rewards w = (Inr (), w5))"
  by (simp add: RethnetAdapter_addBlockRewards_def bind_action_def return_action_def
        all_zero_def dummy_header_def Buffer_alloc_def list_all_iff)

theorem addBlockRewards_dummy_header_witness:
  "(\<forall>inner c1 c2 v. BlockBuilder_new memory_modules inner c1 dummy_header c2 v
        = BlockBuilder_new strict_builder_modules inner c1 dummy_header c2 v)
   \<and> RethnetAdapter_addBlockRewards memory_modules memory_candidate_object
        [(Address [1], 5)] fresh_world
       = RethnetAdapter_addBlockRewards strict_builder_modules memory_candidate_object
        [(Address [1], 5)] fresh_world
   \<and> RethnetAdapter_addBlockRewards memory_modules memory_candidate_object
        [(Address [1], 5)] fresh_world
       = (Inr (), fresh_world\<lparr>candidate_store := credit (Address [1], 5) empty_store\<rparr>)
   \<and> RethnetAdapter_addBlockRewards refusing_builder_modules memory_candidate_object
        [(Address [1], 5)] fresh_world
       = (Inl (Error ''block builder refused''), fresh_world)"
proof -
  note T = addBlockRewards_dummy_header
  have same: "\<forall>inner c1 c2 v. BlockBuilder_new memory_modules inner c1 dummy_header c2 v
        = BlockBuilder_new strict_builder_modules inner c1 dummy_header c2 v"
    by (simp add: strict_builder_modules_def memory_modules_def)
  have fin: "BlockBuilder_finalize memory_modules = BlockBuilder_finalize strict_builder_modules"
    by (simp add: strict_builder_modules_def)
  have built: "BlockBuilder_new memory_modules (state_asInner (state memory_candidate_object))
        EmptyObject dummy_header EmptyObject fresh_world = (Inr (), fresh_world)"
    by (simp add: memory_modules_def return_action_def)
  have finalized: "BlockBuilder_finalize memory_modules ()
        (map (\<lambda>(address, reward). (buf address, reward)) [(Address [1], 5)]) fresh_world
      = (Inr (), fresh_world\<lparr>candidate_store := credit (Address [1], 5) empty_store\<rparr>)"
    by (simp add: memory_modules_def on_candidate_def fresh_world_def)
  have refused: "BlockBuilder_new refusing_builder_modules
        (state_asInner (state memory_candidate_object))
        EmptyObject dummy_header EmptyObject fresh_world
      = (Inl (Error ''block builder refused''), fresh_world)"
    by (simp add: refusing_builder_modules_def throw_def)
  have ext: "RethnetAdapter_addBlockRewards memory_modules memory_candidate_object
        [(Address [1], 5)] fresh_world
       = RethnetAdapter_addBlockRewards strict_builder_modules memory_candidate_object
        [(Address [1], 5)] fresh_world"
    using same fin
      T [where ?lib1.0 = memory_modules and ?lib2.0 = strict_builder_modules
        and this = memory_candidate_object and rewards = "[(Address [1], 5)]"
        and w = fresh_world,
        THEN conjunct2, THEN conjunct2, THEN conjunct2, THEN conjunct2, THEN conjunct2,
        THEN conjunct2, THEN conjunct2, THEN conjunct2, THEN conjunct2, THEN conjunct2,
        THEN conjunct2, THEN conjunct2, THEN conjunct2, THEN conjunct2, THEN conjunct2,
        THEN conjunct1, THEN mp]
    by blast
  have ok: "RethnetAdapter_addBlockRewards memory_modules memory_candidate_object
        [(Address [1], 5)] fresh_world
       = (Inr (), fresh_world\<lparr>candidate_store := credit (Address [1], 5) empty_store\<rparr>)"
    using built finalized
      T [where lib = memory_modules and this = memory_candidate_object
        and rewards = "[(Address [1], 5)]" and w = fresh_world
        and blockBuilder' = "()" and ?w4.0 = fresh_world and u = "()"
        and ?w5.0 = "fresh_world\<lparr>candidate_store := credit (Address [1], 5) empty_store\<rparr>",
        THEN conjunct2, THEN conjunct2, THEN conjunct2, THEN conjunct2, THEN conjunct2,
        THEN conjunct2, THEN conjunct2, THEN conjunct2, THEN conjunct2, THEN conjunct2,
        THEN conjunct2, THEN conjunct2, THEN conjunct2, THEN conjunct2, THEN conjunct2,
        THEN conjunct2, THEN conjunct2, THEN conjunct2, THEN mp]
    by blast
  have no: "RethnetAdapter_addBlockRewards refusing_builder_modules memory_candidate_object
        [(Address [1], 5)] fresh_world
       = (Inl (Error ''block builder refused''), fresh_world)"
    using refused
      T [where lib = refusing_builder_modules and this = memory_candidate_object
        and rewards = "[(Address [1], 5)]" and w = fresh_world
        and e = "Error ''block builder refused''" and ?w1.0 = fresh_world,
        THEN conjunct2, THEN conjunct2, THEN conjunct2, THEN conjunct2, THEN conjunct2,
        THEN conjunct2, THEN conjunct2, THEN conjunct2, THEN conjunct2, THEN conjunct2,
        THEN conjunct2, THEN conjunct2, THEN conjunct2, THEN conjunct2, THEN conjunct2,
        THEN conjunct2, THEN conjunct1, THEN mp]
    by blast
  from same ext ok no show ?thesis by blast
qed

end
